theory Spec2Isabelle
  imports Main "HOL-Library.Word" "HOL-Library.Multiset"
begin

unbundle bit_operations_syntax

section \<open>Platform primitives used by the signers\<close>

text \<open>
  Every signer of the repository is built from the same three platform services:
  \<^verbatim>\<open>TextEncoder.encode\<close>, \<^verbatim>\<open>crypto.subtle.digest('SHA-256', _)\<close> and the pair
  \<^verbatim>\<open>crypto.subtle.importKey\<close> / \<^verbatim>\<open>crypto.subtle.sign('HMAC', _, _)\<close>.
  They are modelled here once, executably, so that the signers below can be run on
  concrete requests.

  A JavaScript string is modelled by the \<^typ>\<open>string\<close> that holds its UTF-8 encoding
  (one \<^typ>\<open>char\<close> per byte), a \<^verbatim>\<open>Uint8Array\<close> / \<^verbatim>\<open>ArrayBuffer\<close> by a list of
  8-bit words. Under this reading \<^verbatim>\<open>TextEncoder.encode\<close> only changes the type.
\<close>

type_synonym byte = "8 word"

definition encode :: "string \<Rightarrow> byte list" where
  "encode s = map (\<lambda>c. word_of_nat (of_char c)) s"

subsection \<open>SHA-256\<close>

text \<open>
  The digest follows FIPS 180-4. A 32-bit register is an \<^typ>\<open>int\<close> in \<open>0 ..< 2 ^ 32\<close>;
  every addition is reduced \<open>mod 2 ^ 32\<close> explicitly.
\<close>

type_synonym u32 = int

definition rotr :: "nat \<Rightarrow> u32 \<Rightarrow> u32" where
  "rotr n x = x div 2 ^ n + (x mod 2 ^ n) * 2 ^ (32 - n)"

definition shr :: "nat \<Rightarrow> u32 \<Rightarrow> u32" where
  "shr n x = x div 2 ^ n"

definition Ch :: "u32 \<Rightarrow> u32 \<Rightarrow> u32 \<Rightarrow> u32" where
  "Ch x y z = (x AND y) XOR ((4294967295 - x) AND z)"

definition Maj :: "u32 \<Rightarrow> u32 \<Rightarrow> u32 \<Rightarrow> u32" where
  "Maj x y z = (x AND y) XOR (x AND z) XOR (y AND z)"

definition bsig0 :: "u32 \<Rightarrow> u32" where
  "bsig0 x = rotr 2 x XOR rotr 13 x XOR rotr 22 x"

definition bsig1 :: "u32 \<Rightarrow> u32" where
  "bsig1 x = rotr 6 x XOR rotr 11 x XOR rotr 25 x"

definition ssig0 :: "u32 \<Rightarrow> u32" where
  "ssig0 x = rotr 7 x XOR rotr 18 x XOR shr 3 x"

definition ssig1 :: "u32 \<Rightarrow> u32" where
  "ssig1 x = rotr 17 x XOR rotr 19 x XOR shr 10 x"

definition K256 :: "u32 list" where
  "K256 =
    [
     0x428A2F98, 0x71374491, 0xB5C0FBCF, 0xE9B5DBA5, 0x3956C25B, 0x59F111F1,
     0x923F82A4, 0xAB1C5ED5, 0xD807AA98, 0x12835B01, 0x243185BE, 0x550C7DC3,
     0x72BE5D74, 0x80DEB1FE, 0x9BDC06A7, 0xC19BF174, 0xE49B69C1, 0xEFBE4786,
     0x0FC19DC6, 0x240CA1CC, 0x2DE92C6F, 0x4A7484AA, 0x5CB0A9DC, 0x76F988DA,
     0x983E5152, 0xA831C66D, 0xB00327C8, 0xBF597FC7, 0xC6E00BF3, 0xD5A79147,
     0x06CA6351, 0x14292967, 0x27B70A85, 0x2E1B2138, 0x4D2C6DFC, 0x53380D13,
     0x650A7354, 0x766A0ABB, 0x81C2C92E, 0x92722C85, 0xA2BFE8A1, 0xA81A664B,
     0xC24B8B70, 0xC76C51A3, 0xD192E819, 0xD6990624, 0xF40E3585, 0x106AA070,
     0x19A4C116, 0x1E376C08, 0x2748774C, 0x34B0BCB5, 0x391C0CB3, 0x4ED8AA4A,
     0x5B9CCA4F, 0x682E6FF3, 0x748F82EE, 0x78A5636F, 0x84C87814, 0x8CC70208,
     0x90BEFFFA, 0xA4506CEB, 0xBEF9A3F7, 0xC67178F2]"

type_synonym hstate = "u32 \<times> u32 \<times> u32 \<times> u32 \<times> u32 \<times> u32 \<times> u32 \<times> u32"

type_synonym window =
  "u32 \<times> u32 \<times> u32 \<times> u32 \<times> u32 \<times> u32 \<times> u32 \<times> u32 \<times>
   u32 \<times> u32 \<times> u32 \<times> u32 \<times> u32 \<times> u32 \<times> u32 \<times> u32"

definition H0 :: hstate where
  "H0 = (0x6A09E667, 0xBB67AE85, 0x3C6EF372, 0xA54FF53A,
         0x510E527F, 0x9B05688C, 0x1F83D9AB, 0x5BE0CD19)"

text \<open>
  One round. The window holds the sixteen most recent words of the message schedule,
  oldest first: its head is the word of the current round, and the next schedule word is
  appended at the end.
\<close>

definition round :: "u32 \<Rightarrow> hstate \<times> window \<Rightarrow> hstate \<times> window" where
  "round k s =
     (case s of
        ((a, b, c, d, e, f, g, h),
         (w0, w1, w2, w3, w4, w5, w6, w7, w8, w9, w10, w11, w12, w13, w14, w15)) \<Rightarrow>
          (let t1 = (h + bsig1 e + Ch e f g + k + w0) mod 4294967296;
               t2 = (bsig0 a + Maj a b c) mod 4294967296
           in (((t1 + t2) mod 4294967296, a, b, c, (d + t1) mod 4294967296, e, f, g),
               (w1, w2, w3, w4, w5, w6, w7, w8, w9, w10, w11, w12, w13, w14, w15,
                (ssig1 w14 + w9 + ssig0 w1 + w0) mod 4294967296))))"

fun rounds :: "u32 list \<Rightarrow> hstate \<times> window \<Rightarrow> hstate \<times> window" where
  "rounds [] s = s"
| "rounds (k # ks) s = rounds ks (round k s)"

definition add_state :: "hstate \<Rightarrow> hstate \<Rightarrow> hstate" where
  "add_state x y =
     (case (x, y) of
        ((a, b, c, d, e, f, g, h), (a', b', c', d', e', f', g', h')) \<Rightarrow>
          ((a + a') mod 4294967296, (b + b') mod 4294967296,
           (c + c') mod 4294967296, (d + d') mod 4294967296,
           (e + e') mod 4294967296, (f + f') mod 4294967296,
           (g + g') mod 4294967296, (h + h') mod 4294967296))"

definition compress :: "hstate \<Rightarrow> window \<Rightarrow> hstate" where
  "compress hs w = add_state hs (fst (rounds K256 (hs, w)))"

text \<open>Big-endian packing of the padded message into 32-bit words.\<close>

fun be_words :: "byte list \<Rightarrow> u32 list" where
  "be_words (a # b # c # d # bs) =
     (uint a * 16777216 + uint b * 65536 + uint c * 256 + uint d) # be_words bs"
| "be_words _ = []"

definition length_bytes :: "nat \<Rightarrow> byte list" where
  "length_bytes l =
     map (\<lambda>i. word_of_int ((8 * int l) div 256 ^ i)) [7, 6, 5, 4, 3, 2, 1, 0 :: nat]"

definition sha_pad :: "byte list \<Rightarrow> byte list" where
  "sha_pad m =
     m @ [0x80] @ replicate ((119 - length m mod 64) mod 64) 0 @ length_bytes (length m)"

fun blocks :: "hstate \<Rightarrow> u32 list \<Rightarrow> hstate" where
  "blocks hs (w0 # w1 # w2 # w3 # w4 # w5 # w6 # w7 # w8 # w9 # w10 # w11 # w12 # w13 # w14 # w15 # ws) =
     blocks (compress hs (w0, w1, w2, w3, w4, w5, w6, w7, w8, w9, w10, w11, w12, w13, w14, w15)) ws"
| "blocks hs _ = hs"

definition word_bytes :: "u32 \<Rightarrow> byte list" where
  "word_bytes w =
     [word_of_int (w div 16777216), word_of_int (w div 65536), word_of_int (w div 256), word_of_int w]"

definition state_bytes :: "hstate \<Rightarrow> byte list" where
  "state_bytes s =
     (case s of (a, b, c, d, e, f, g, h) \<Rightarrow>
        word_bytes a @ word_bytes b @ word_bytes c @ word_bytes d @
        word_bytes e @ word_bytes f @ word_bytes g @ word_bytes h)"

definition SHA256 :: "byte list \<Rightarrow> byte list" where
  "SHA256 m = state_bytes (blocks H0 (be_words (sha_pad m)))"

subsection \<open>HMAC-SHA256 and the WebCrypto key import\<close>

text \<open>
  HMAC as in RFC 2104 with the 64-byte block of SHA-256: a key longer than one block is
  hashed first, then padded with zero bytes to the block length.
\<close>

definition hmac_key :: "byte list \<Rightarrow> byte list" where
  "hmac_key k =
     (let k' = (if 64 < length k then SHA256 k else k)
      in k' @ replicate (64 - length k') 0)"

definition HMAC_SHA256 :: "byte list \<Rightarrow> byte list \<Rightarrow> byte list" where
  "HMAC_SHA256 k m =
     SHA256 (map (\<lambda>b. b XOR 0x5C) (hmac_key k) @
             SHA256 (map (\<lambda>b. b XOR 0x36) (hmac_key k) @ m))"

text \<open>
  The failures a signer can raise: \<^verbatim>\<open>new URL(url)\<close> throws a \<^verbatim>\<open>TypeError\<close> on a string
  it cannot parse, \<^verbatim>\<open>bedrock-llm/aws-signer.ts\<close> throws its own \<^verbatim>\<open>Error\<close> when neither a
  url nor a host and path are given, and \<^verbatim>\<open>crypto.subtle.importKey\<close> rejects an HMAC key
  of length zero with a \<^verbatim>\<open>DataError\<close>.
\<close>

datatype error = TypeError_Invalid_URL | Error_url_or_host_and_path | DataError_zero_length_key

text \<open>An imported \<^verbatim>\<open>CryptoKey\<close> is represented by its raw bytes.\<close>

definition importKey :: "byte list \<Rightarrow> error + byte list" where
  "importKey raw = (if raw = [] then Inl DataError_zero_length_key else Inr raw)"

definition subtle_sign :: "byte list \<Rightarrow> byte list \<Rightarrow> byte list" where
  "subtle_sign cryptoKey dat = HMAC_SHA256 cryptoKey dat"

subsection \<open>Strings\<close>

fun join :: "string \<Rightarrow> string list \<Rightarrow> string" where
  "join sep [] = []"
| "join sep [x] = x"
| "join sep (x # y # ys) = x @ sep @ join sep (y # ys)"

text \<open>\<^verbatim>\<open>s.split(d)\<close> for a one-character separator: the empty string gives one empty piece.\<close>

fun split_on :: "char \<Rightarrow> string \<Rightarrow> string list" where
  "split_on d [] = [[]]"
| "split_on d (c # cs) =
     (if c = d then [] # split_on d cs
      else (case split_on d cs of [] \<Rightarrow> [[c]] | w # ws \<Rightarrow> (c # w) # ws))"

text \<open>\<^verbatim>\<open>b.toString(16).padStart(2, '0')\<close> on one byte, and the hex rendering of a buffer.\<close>

definition hex_alphabet :: string where
  "hex_alphabet = ''0123456789abcdef''"

definition toString16 :: "nat \<Rightarrow> string" where
  "toString16 n =
     (if n < 16 then [hex_alphabet ! n]
      else [hex_alphabet ! (n div 16 mod 16), hex_alphabet ! (n mod 16)])"

definition padStart2 :: "string \<Rightarrow> string" where
  "padStart2 s = replicate (2 - length s) CHR ''0'' @ s"

definition toHex :: "byte list \<Rightarrow> string" where
  "toHex buffer = concat (map (\<lambda>b. padStart2 (toString16 (unat b))) buffer)"

subsection \<open>The clock\<close>

text \<open>
  \<^verbatim>\<open>new Date()\<close> reads the clock. The instant it returns is a parameter of every signer
  below, given by its UTC calendar fields. \<^verbatim>\<open>toISOString\<close> prints them with fixed widths
  as \<^verbatim>\<open>YYYY-MM-DDTHH:mm:ss.sssZ\<close>; a year beyond 9999 is printed with a sign and six
  digits.
\<close>

record utc_time =
  utc_year :: nat
  utc_month :: nat
  utc_day :: nat
  utc_hours :: nat
  utc_minutes :: nat
  utc_seconds :: nat
  utc_millis :: nat

definition digits :: string where
  "digits = ''0123456789''"

text \<open>\<open>dec w n\<close> prints the last \<open>w\<close> decimal digits of \<open>n\<close>, zero-padded.\<close>

fun dec :: "nat \<Rightarrow> nat \<Rightarrow> string" where
  "dec 0 n = []"
| "dec (Suc w) n = dec w (n div 10) @ [digits ! (n mod 10)]"

definition toISOString :: "utc_time \<Rightarrow> string" where
  "toISOString t =
     (if utc_year t \<le> 9999 then dec 4 (utc_year t) else CHR ''+'' # dec 6 (utc_year t)) @
     ''-'' @ dec 2 (utc_month t) @ ''-'' @ dec 2 (utc_day t) @ ''T'' @
     dec 2 (utc_hours t) @ '':'' @ dec 2 (utc_minutes t) @ '':'' @ dec 2 (utc_seconds t) @
     ''.'' @ dec 3 (utc_millis t) @ ''Z''"

definition is_digit :: "char \<Rightarrow> bool" where
  "is_digit c = (c \<in> set digits)"

text \<open>\<^verbatim>\<open>s.replace(/[:-]|\.\d{3}/g, '')\<close>, scanning from the left.\<close>

function strip_punct :: "string \<Rightarrow> string" where
  "strip_punct [] = []"
| "strip_punct (c # cs) =
     (if c = CHR '':'' \<or> c = CHR ''-'' then strip_punct cs
      else if c = CHR ''.'' \<and> 3 \<le> length cs \<and> list_all is_digit (take 3 cs)
           then strip_punct (drop 3 cs)
      else c # strip_punct cs)"
  by pat_completeness auto
termination
  by (relation "measure length") auto

definition amzDate_of :: "utc_time \<Rightarrow> string" where
  "amzDate_of now = strip_punct (toISOString now)"

subsection \<open>Parsed URLs\<close>

text \<open>
  \<^verbatim>\<open>new URL(url)\<close> is the platform's parser; the signers read four getters of its result.
  The parser is a parameter \<open>new_URL\<close> of every signer, \<open>None\<close> standing for the
  \<^verbatim>\<open>TypeError\<close> it throws. \<open>search\<close> is empty or starts with a question mark;
  \<open>searchParams\<close> lists the decoded name/value pairs in the order of the query.
\<close>

record URL =
  hostname :: string
  pathname :: string
  search :: string
  searchParams :: "(string \<times> string) list"

text \<open>
  \<^verbatim>\<open>URLSearchParams.toString()\<close>: the application/x-www-form-urlencoded serialiser. A byte
  is kept when it is an ASCII letter or digit or one of \<^verbatim>\<open>* - . _\<close>, a space becomes
  \<^verbatim>\<open>+\<close>, every other byte is written as a percent sign and two upper-case hex digits.
\<close>

definition percent :: "char \<Rightarrow> string" where
  "percent c =
     [CHR ''%'', ''0123456789ABCDEF'' ! (of_char c div 16), ''0123456789ABCDEF'' ! (of_char c mod 16)]"

definition alnum :: "char \<Rightarrow> bool" where
  "alnum c = (c \<in> set ''ABCDEFGHIJKLMNOPQRSTUVWXYZabcdefghijklmnopqrstuvwxyz0123456789'')"

definition form_encode :: "string \<Rightarrow> string" where
  "form_encode s =
     concat (map (\<lambda>c. if alnum c \<or> c \<in> set ''*-._'' then [c]
                        else if c = CHR '' '' then ''+'' else percent c) s)"

definition searchParams_toString :: "(string \<times> string) list \<Rightarrow> string" where
  "searchParams_toString ps = join ''&'' (map (\<lambda>(k, v). form_encode k @ ''='' @ form_encode v) ps)"

text \<open>
  \<^verbatim>\<open>encodeURIComponent\<close> keeps letters, digits and \<^verbatim>\<open>- _ . ! ~ * ' ( )\<close> and
  percent-encodes every other byte of the UTF-8 encoding.
\<close>

definition encodeURIComponent :: "string \<Rightarrow> string" where
  "encodeURIComponent s =
     concat (map (\<lambda>c. if alnum c \<or> c \<in> set (''-_.!~*()'' @ [CHR 0x27]) then [c]
                        else percent c) s)"

definition toUpperCase :: "string \<Rightarrow> string" where
  "toUpperCase s =
     map (\<lambda>c. if c \<in> set ''abcdefghijklmnopqrstuvwxyz'' then char_of (of_char c - (32::nat)) else c) s"

section \<open>Helpers shared by the signer files\<close>

text \<open>
  \<^verbatim>\<open>sha256\<close> and \<^verbatim>\<open>toHex\<close> of \<^verbatim>\<open>list-foundation-models/aws-signer.ts\<close> and
  \<^verbatim>\<open>generate-upload-url/aws-signer.ts\<close>; \<^verbatim>\<open>hash\<close> of \<^verbatim>\<open>list-s3-objects/index.ts\<close> is their
  composition, and the inline digests of the other files compute the same string.
\<close>

definition sha256 :: "string \<Rightarrow> byte list" where
  "sha256 dat = SHA256 (encode dat)"

definition hash :: "string \<Rightarrow> string" where
  "hash dat = toHex (SHA256 (encode dat))"

text \<open>
  \<^verbatim>\<open>hmac(key, data)\<close> of the signer files (called \<^verbatim>\<open>hmacBinary\<close> in
  \<^verbatim>\<open>list-s3-objects/index.ts\<close>): import the raw key, then sign the encoded string.
\<close>

definition hmac :: "byte list \<Rightarrow> string \<Rightarrow> error + byte list" where
  "hmac key dat =
     (case importKey key of
        Inl e \<Rightarrow> Inl e
      | Inr cryptoKey \<Rightarrow> Inr (subtle_sign cryptoKey (encode dat)))"

text \<open>\<^verbatim>\<open>hmac\<close> of \<^verbatim>\<open>list-s3-objects/index.ts\<close>, which returns the hex rendering.\<close>

definition hmac_hex :: "byte list \<Rightarrow> string \<Rightarrow> error + string" where
  "hmac_hex key dat =
     (case importKey key of
        Inl e \<Rightarrow> Inl e
      | Inr cryptoKey \<Rightarrow> Inr (toHex (subtle_sign cryptoKey (encode dat))))"

definition getSignatureKey :: "string \<Rightarrow> string \<Rightarrow> string \<Rightarrow> string \<Rightarrow> error + byte list" where
  "getSignatureKey key dateStamp regionName serviceName =
     (case hmac (encode (''AWS4'' @ key)) dateStamp of
        Inl e \<Rightarrow> Inl e
      | Inr kDate \<Rightarrow>
     (case hmac kDate regionName of
        Inl e \<Rightarrow> Inl e
      | Inr kRegion \<Rightarrow>
     (case hmac kRegion serviceName of
        Inl e \<Rightarrow> Inl e
      | Inr kService \<Rightarrow> hmac kService ''aws4_request'')))"

text \<open>
  \<^verbatim>\<open>encodeURIComponent2\<close>, \<^verbatim>\<open>canonicalURI\<close> and \<^verbatim>\<open>getCanonicalQueryString\<close>. The
  replacement callback writes \<^verbatim>\<open>'%' + c.charCodeAt(0).toString(16).toUpperCase()\<close> for each
  of \<^verbatim>\<open>! ' ( ) *\<close>.
\<close>

definition encodeURIComponent2 :: "string \<Rightarrow> string" where
  "encodeURIComponent2 str =
     concat (map (\<lambda>c. if c \<in> set (''!()*'' @ [CHR 0x27])
                        then CHR ''%'' # toUpperCase (toString16 (of_char c)) else [c])
               (encodeURIComponent str))"

text \<open>\<^verbatim>\<open>canonicalURI\<close> of \<^verbatim>\<open>list-foundation-models/aws-signer.ts\<close>.\<close>

definition canonicalURI_lfm :: "string \<Rightarrow> string" where
  "canonicalURI_lfm path = join ''/'' (map encodeURIComponent2 (split_on CHR ''/'' path))"

text \<open>\<^verbatim>\<open>canonicalURI\<close> of \<^verbatim>\<open>generate-upload-url/aws-signer.ts\<close>.\<close>

definition canonicalURI :: "string \<Rightarrow> string" where
  "canonicalURI path =
     (if path = [] \<or> path = ''/'' then ''/''
      else join ''/'' (map encodeURIComponent2 (split_on CHR ''/'' path)))"

text \<open>
  \<^verbatim>\<open>Array.prototype.sort\<close> with a comparator is stable; it is modelled by insertion from
  the right. \<^verbatim>\<open>String.prototype.localeCompare\<close> is the platform's collation and a
  parameter \<open>localeCompare\<close> of the functions that use it.
\<close>

fun insert_by :: "('a \<Rightarrow> 'a \<Rightarrow> int) \<Rightarrow> 'a \<Rightarrow> 'a list \<Rightarrow> 'a list" where
  "insert_by cmp x [] = [x]"
| "insert_by cmp x (y # ys) = (if cmp x y \<le> 0 then x # y # ys else y # insert_by cmp x ys)"

definition sort_by :: "('a \<Rightarrow> 'a \<Rightarrow> int) \<Rightarrow> 'a list \<Rightarrow> 'a list" where
  "sort_by cmp xs = foldr (insert_by cmp) xs []"

definition compare_params ::
  "(string \<Rightarrow> string \<Rightarrow> int) \<Rightarrow> string \<times> string \<Rightarrow> string \<times> string \<Rightarrow> int" where
  "compare_params localeCompare a b =
     (if fst a = fst b then localeCompare (snd a) (snd b) else localeCompare (fst a) (fst b))"

definition getCanonicalQueryString ::
  "(string \<Rightarrow> string \<Rightarrow> int) \<Rightarrow> (string \<times> string) list \<Rightarrow> string" where
  "getCanonicalQueryString localeCompare sp =
     (let params = map (\<lambda>(key, val). (encodeURIComponent2 key, encodeURIComponent2 val)) sp;
          sorted_params = sort_by (compare_params localeCompare) params
      in join ''&'' (map (\<lambda>(key, val). key @ ''='' @ val) sorted_params))"

text \<open>The pieces every signer builds in the same way.\<close>

definition credentialScope_of :: "string \<Rightarrow> string \<Rightarrow> string \<Rightarrow> string" where
  "credentialScope_of dateStamp region service =
     dateStamp @ ''/'' @ region @ ''/'' @ service @ ''/aws4_request''"

definition stringToSign_of :: "string \<Rightarrow> string \<Rightarrow> string \<Rightarrow> string" where
  "stringToSign_of amzDate credentialScope canonicalRequestHash =
     join ''\<newline>'' [''AWS4-HMAC-SHA256'', amzDate, credentialScope, canonicalRequestHash]"

definition authorizationHeader_of :: "string \<Rightarrow> string \<Rightarrow> string \<Rightarrow> string \<Rightarrow> string" where
  "authorizationHeader_of accessKeyId credentialScope signedHeaders signature =
     ''AWS4-HMAC-SHA256 Credential='' @ accessKeyId @ ''/'' @ credentialScope @
     '', SignedHeaders='' @ signedHeaders @ '', Signature='' @ signature"

section \<open>The signers\<close>

text \<open>
  The request parameters. Every file takes \<^verbatim>\<open>method\<close>, \<^verbatim>\<open>body\<close>, \<^verbatim>\<open>region\<close>,
  \<^verbatim>\<open>service\<close>, \<^verbatim>\<open>accessKeyId\<close> and \<^verbatim>\<open>secretAccessKey\<close>. All but one add a mandatory
  \<^verbatim>\<open>url\<close>; \<^verbatim>\<open>bedrock-llm/aws-signer.ts\<close> adds an optional \<^verbatim>\<open>url\<close>, \<^verbatim>\<open>host\<close> and
  \<^verbatim>\<open>path\<close> instead (\<open>None\<close> is \<^verbatim>\<open>undefined\<close>).
\<close>

record request =
  "method" :: string
  body :: string
  region :: string
  service :: string
  accessKeyId :: string
  secretAccessKey :: string

record SignRequestOptions = request +
  url :: string

record SignRequestParams = request +
  url_opt :: "string option"
  host :: "string option"
  path :: "string option"

type_synonym headers = "(string \<times> string) list"

subsection \<open>\<^verbatim>\<open>bedrock-llm/aws-signer.ts\<close>\<close>

text \<open>A JavaScript condition on an optional string holds when it is defined and not empty.\<close>

definition truthy :: "string option \<Rightarrow> string option" where
  "truthy v = (case v of None \<Rightarrow> None | Some s \<Rightarrow> if s = [] then None else Some s)"

definition final_target ::
  "(string \<Rightarrow> URL option) \<Rightarrow> SignRequestParams \<Rightarrow> error + string \<times> string" where
  "final_target new_URL params =
     (case truthy (url_opt params) of
        Some u \<Rightarrow>
          (case new_URL u of
             None \<Rightarrow> Inl TypeError_Invalid_URL
           | Some urlObj \<Rightarrow> Inr (hostname urlObj, pathname urlObj @ search urlObj))
      | None \<Rightarrow>
          (case truthy (host params) of
             None \<Rightarrow> Inl Error_url_or_host_and_path
           | Some h \<Rightarrow>
               (case truthy (path params) of
                  None \<Rightarrow> Inl Error_url_or_host_and_path
                | Some p \<Rightarrow> Inr (h, p))))"

definition canonicalRequest_bedrock_llm ::
  "string \<Rightarrow> string \<Rightarrow> string \<Rightarrow> string \<Rightarrow> string \<Rightarrow> string" where
  "canonicalRequest_bedrock_llm meth finalPath finalHost amzDate bodyHashHex =
     (let canonicalHeaders = ''host:'' @ finalHost @ ''\<newline>x-amz-date:'' @ amzDate @ ''\<newline>'';
          signedHeaders = ''host;x-amz-date''
      in meth @ ''\<newline>'' @ finalPath @ ''\<newline>\<newline>'' @ canonicalHeaders @ ''\<newline>'' @
         signedHeaders @ ''\<newline>'' @ bodyHashHex)"

text \<open>The local \<^verbatim>\<open>getSignatureKey\<close> of this file returns the imported signing key.\<close>

definition getSignatureKey_bedrock_llm ::
  "string \<Rightarrow> string \<Rightarrow> string \<Rightarrow> string \<Rightarrow> error + byte list" where
  "getSignatureKey_bedrock_llm key dateStamp regionName serviceName =
     (case importKey (encode (''AWS4'' @ key)) of
        Inl e \<Rightarrow> Inl e
      | Inr kDate \<Rightarrow>
     (case importKey (subtle_sign kDate (encode dateStamp)) of
        Inl e \<Rightarrow> Inl e
      | Inr kRegion \<Rightarrow>
     (case importKey (subtle_sign kRegion (encode regionName)) of
        Inl e \<Rightarrow> Inl e
      | Inr kService \<Rightarrow> importKey (subtle_sign kService (encode serviceName)))))"

definition signRequest_bedrock_llm ::
  "(string \<Rightarrow> URL option) \<Rightarrow> utc_time \<Rightarrow> SignRequestParams \<Rightarrow> error + headers" where
  "signRequest_bedrock_llm new_URL now params =
     (case final_target new_URL params of
        Inl e \<Rightarrow> Inl e
      | Inr (finalHost, finalPath) \<Rightarrow>
          (let amzDate = amzDate_of now;
               dateStamp = take 8 amzDate;
               bodyHashHex = toHex (SHA256 (encode (body params)));
               signedHeaders = ''host;x-amz-date'';
               canonicalRequest =
                 canonicalRequest_bedrock_llm (method params) finalPath finalHost amzDate bodyHashHex;
               canonicalRequestHashHex = toHex (SHA256 (encode canonicalRequest));
               credentialScope = credentialScope_of dateStamp (region params) (service params);
               stringToSign = stringToSign_of amzDate credentialScope canonicalRequestHashHex
           in (case getSignatureKey_bedrock_llm (secretAccessKey params) dateStamp
                      (region params) (service params) of
                 Inl e \<Rightarrow> Inl e
               | Inr signingKey \<Rightarrow>
                   (let signature = toHex (subtle_sign signingKey (encode stringToSign));
                        authorizationHeader =
                          authorizationHeader_of (accessKeyId params) credentialScope
                            signedHeaders signature
                    in Inr [(''Host'', finalHost),
                            (''X-Amz-Date'', amzDate),
                            (''Authorization'', authorizationHeader),
                            (''Content-Type'', ''application/json'')]))))"

subsection \<open>The signer inside \<^verbatim>\<open>list-s3-objects/index.ts\<close>\<close>

definition canonicalRequest_list_s3_objects ::
  "string \<Rightarrow> URL \<Rightarrow> string \<Rightarrow> string \<Rightarrow> string" where
  "canonicalRequest_list_s3_objects meth urlObj amzDate payloadHash =
     (let host = hostname urlObj;
          path = pathname urlObj @ search urlObj;
          canonicalHeaders = ''host:'' @ host @ ''\<newline>x-amz-date:'' @ amzDate @ ''\<newline>'';
          signedHeaders = ''host;x-amz-date''
      in join ''\<newline>'' [meth, path, [], canonicalHeaders, signedHeaders, payloadHash])"

definition signRequest_list_s3_objects ::
  "(string \<Rightarrow> URL option) \<Rightarrow> utc_time \<Rightarrow> SignRequestOptions \<Rightarrow> error + headers" where
  "signRequest_list_s3_objects new_URL now params =
     (case new_URL (url params) of
        None \<Rightarrow> Inl TypeError_Invalid_URL
      | Some urlObj \<Rightarrow>
          (let amzDate = amzDate_of now;
               dateStamp = take 8 amzDate;
               payloadHash = hash (body params);
               signedHeaders = ''host;x-amz-date'';
               canonicalRequest =
                 canonicalRequest_list_s3_objects (method params) urlObj amzDate payloadHash;
               credentialScope = credentialScope_of dateStamp (region params) (service params);
               stringToSign = stringToSign_of amzDate credentialScope (hash canonicalRequest)
           in (case getSignatureKey (secretAccessKey params) dateStamp
                      (region params) (service params) of
                 Inl e \<Rightarrow> Inl e
               | Inr signingKey \<Rightarrow>
                   (case hmac_hex signingKey stringToSign of
                      Inl e \<Rightarrow> Inl e
                    | Inr signature \<Rightarrow>
                        Inr [(''Authorization'',
                                authorizationHeader_of (accessKeyId params) credentialScope
                                  signedHeaders signature),
                             (''x-amz-date'', amzDate),
                             (''x-amz-content-sha256'', payloadHash)]))))"

subsection \<open>\<^verbatim>\<open>list-repository-files/aws-signer.ts\<close>\<close>

definition canonicalRequest_list_repository_files ::
  "string \<Rightarrow> URL \<Rightarrow> string \<Rightarrow> string \<Rightarrow> string" where
  "canonicalRequest_list_repository_files meth urlObj amzDate payloadHash =
     (let host = hostname urlObj;
          canonicalUri = (if pathname urlObj = [] then ''/'' else pathname urlObj);
          canonicalQueryString = searchParams_toString (searchParams urlObj);
          canonicalHeaders = ''host:'' @ host @ ''\<newline>x-amz-date:'' @ amzDate @ ''\<newline>'';
          signedHeaders = ''host;x-amz-date''
      in join ''\<newline>''
           [meth, canonicalUri, canonicalQueryString, canonicalHeaders, signedHeaders, payloadHash])"

definition signRequest_list_repository_files ::
  "(string \<Rightarrow> URL option) \<Rightarrow> utc_time \<Rightarrow> SignRequestOptions \<Rightarrow> error + headers" where
  "signRequest_list_repository_files new_URL now params =
     (case new_URL (url params) of
        None \<Rightarrow> Inl TypeError_Invalid_URL
      | Some urlObj \<Rightarrow>
          (let amzDate = amzDate_of now;
               dateStamp = take 8 amzDate;
               payloadHash = toHex (SHA256 (encode (body params)));
               signedHeaders = ''host;x-amz-date'';
               canonicalRequest =
                 canonicalRequest_list_repository_files (method params) urlObj amzDate payloadHash;
               canonicalRequestHash = toHex (SHA256 (encode canonicalRequest));
               credentialScope = credentialScope_of dateStamp (region params) (service params);
               stringToSign = stringToSign_of amzDate credentialScope canonicalRequestHash
           in (case hmac (encode (''AWS4'' @ secretAccessKey params)) dateStamp of
                 Inl e \<Rightarrow> Inl e
               | Inr kDate \<Rightarrow>
              (case hmac kDate (region params) of
                 Inl e \<Rightarrow> Inl e
               | Inr kRegion \<Rightarrow>
              (case hmac kRegion (service params) of
                 Inl e \<Rightarrow> Inl e
               | Inr kService \<Rightarrow>
              (case hmac kService ''aws4_request'' of
                 Inl e \<Rightarrow> Inl e
               | Inr kSigning \<Rightarrow>
              (case hmac kSigning stringToSign of
                 Inl e \<Rightarrow> Inl e
               | Inr signature \<Rightarrow>
                   (let signatureHex = toHex signature
                    in Inr [(''Authorization'',
                               authorizationHeader_of (accessKeyId params) credentialScope
                                 signedHeaders signatureHex),
                            (''x-amz-date'', amzDate),
                            (''x-amz-content-sha256'', payloadHash)]))))))))"

subsection \<open>The signer of the unnamed file \<^verbatim>\<open>part_001\<close>\<close>

definition canonicalRequest_part_001 ::
  "string \<Rightarrow> URL \<Rightarrow> string \<Rightarrow> string \<Rightarrow> string" where
  "canonicalRequest_part_001 meth urlObj amzDate payloadHash =
     (let host = hostname urlObj;
          canonicalUri = (if pathname urlObj = [] then ''/'' else pathname urlObj);
          canonicalQuerystring = drop 1 (search urlObj);
          canonicalHeaders = ''host:'' @ host @ ''\<newline>x-amz-date:'' @ amzDate @ ''\<newline>'';
          signedHeaders = ''host;x-amz-date''
      in meth @ ''\<newline>'' @ canonicalUri @ ''\<newline>'' @ canonicalQuerystring @ ''\<newline>'' @
         canonicalHeaders @ ''\<newline>'' @ signedHeaders @ ''\<newline>'' @ payloadHash)"

definition stringToSign_part_001 :: "utc_time \<Rightarrow> URL \<Rightarrow> SignRequestOptions \<Rightarrow> string" where
  "stringToSign_part_001 now urlObj params =
     (let algorithm = ''AWS4-HMAC-SHA256'';
          amzDate = amzDate_of now;
          dateStamp = take 8 amzDate;
          payloadHash = toHex (SHA256 (encode (body params)));
          canonicalRequest = canonicalRequest_part_001 (method params) urlObj amzDate payloadHash;
          credentialScope = credentialScope_of dateStamp (region params) (service params);
          canonicalRequestHash = toHex (SHA256 (encode canonicalRequest))
      in algorithm @ ''\<newline>'' @ amzDate @ ''\<newline>'' @ credentialScope @ ''\<newline>'' @
         canonicalRequestHash)"

definition signRequest_part_001 ::
  "(string \<Rightarrow> URL option) \<Rightarrow> utc_time \<Rightarrow> SignRequestOptions \<Rightarrow> error + headers" where
  "signRequest_part_001 new_URL now params =
     (let algorithm = ''AWS4-HMAC-SHA256'';
          amzDate = amzDate_of now;
          dateStamp = take 8 amzDate
      in (case new_URL (url params) of
            None \<Rightarrow> Inl TypeError_Invalid_URL
          | Some urlObj \<Rightarrow>
              (let payloadHash = toHex (SHA256 (encode (body params)));
                   signedHeaders = ''host;x-amz-date'';
                   credentialScope = credentialScope_of dateStamp (region params) (service params);
                   stringToSign = stringToSign_part_001 now urlObj params
               in (case hmac (encode (''AWS4'' @ secretAccessKey params)) dateStamp of
                     Inl e \<Rightarrow> Inl e
                   | Inr kDate \<Rightarrow>
                  (case hmac kDate (region params) of
                     Inl e \<Rightarrow> Inl e
                   | Inr kRegion \<Rightarrow>
                  (case hmac kRegion (service params) of
                     Inl e \<Rightarrow> Inl e
                   | Inr kService \<Rightarrow>
                  (case hmac kService ''aws4_request'' of
                     Inl e \<Rightarrow> Inl e
                   | Inr kSigning \<Rightarrow>
                  (case hmac kSigning stringToSign of
                     Inl e \<Rightarrow> Inl e
                   | Inr sig \<Rightarrow>
                       Inr [(''Authorization'',
                               algorithm @ '' Credential='' @ accessKeyId params @ ''/'' @
                               credentialScope @ '', SignedHeaders='' @ signedHeaders @
                               '', Signature='' @ toHex sig),
                            (''x-amz-date'', amzDate),
                            (''x-amz-content-sha256'', payloadHash)]))))))))"

subsection \<open>\<^verbatim>\<open>list-foundation-models/aws-signer.ts\<close>\<close>

definition signRequest_list_foundation_models ::
  "(string \<Rightarrow> URL option) \<Rightarrow> utc_time \<Rightarrow> SignRequestOptions \<Rightarrow> error + headers" where
  "signRequest_list_foundation_models new_URL now params =
     (case new_URL (url params) of
        None \<Rightarrow> Inl TypeError_Invalid_URL
      | Some urlObj \<Rightarrow>
          (let host = hostname urlObj;
               canonicalPath = canonicalURI_lfm (pathname urlObj);
               amzDate = amzDate_of now;
               dateStamp = take 8 amzDate;
               payloadHash = toHex (sha256 (body params));
               canonicalHeaders =
                 ''content-type:application/json\<newline>host:'' @ host @ ''\<newline>x-amz-date:'' @
                 amzDate @ ''\<newline>'';
               signedHeaders = ''content-type;host;x-amz-date'';
               canonicalRequest =
                 method params @ ''\<newline>'' @ canonicalPath @ ''\<newline>\<newline>'' @ canonicalHeaders @
                 ''\<newline>'' @ signedHeaders @ ''\<newline>'' @ payloadHash;
               algorithm = ''AWS4-HMAC-SHA256'';
               credentialScope = credentialScope_of dateStamp (region params) (service params);
               stringToSign =
                 algorithm @ ''\<newline>'' @ amzDate @ ''\<newline>'' @ credentialScope @ ''\<newline>'' @
                 toHex (sha256 canonicalRequest)
           in (case getSignatureKey (secretAccessKey params) dateStamp
                      (region params) (service params) of
                 Inl e \<Rightarrow> Inl e
               | Inr signingKey \<Rightarrow>
                   (case hmac signingKey stringToSign of
                      Inl e \<Rightarrow> Inl e
                    | Inr sig \<Rightarrow>
                        Inr [(''Content-Type'', ''application/json''),
                             (''Host'', host),
                             (''X-Amz-Date'', amzDate),
                             (''Authorization'',
                                algorithm @ '' Credential='' @ accessKeyId params @ ''/'' @
                                credentialScope @ '', SignedHeaders='' @ signedHeaders @
                                '', Signature='' @ toHex sig)]))))"

subsection \<open>\<^verbatim>\<open>generate-upload-url/aws-signer.ts\<close>\<close>

definition canonicalRequest_generate_upload_url ::
  "(string \<Rightarrow> string \<Rightarrow> int) \<Rightarrow> string \<Rightarrow> URL \<Rightarrow> string \<Rightarrow> string \<Rightarrow> string" where
  "canonicalRequest_generate_upload_url localeCompare meth urlObj amzDate payloadHash =
     (let host = hostname urlObj;
          canonicalPath = canonicalURI (pathname urlObj);
          canonicalQueryString = getCanonicalQueryString localeCompare (searchParams urlObj);
          canonicalHeaders =
            ''host:'' @ host @ ''\<newline>x-amz-content-sha256:'' @ payloadHash @
            ''\<newline>x-amz-date:'' @ amzDate @ ''\<newline>'';
          signedHeaders = ''host;x-amz-content-sha256;x-amz-date''
      in meth @ ''\<newline>'' @ canonicalPath @ ''\<newline>'' @ canonicalQueryString @ ''\<newline>'' @
         canonicalHeaders @ ''\<newline>'' @ signedHeaders @ ''\<newline>'' @ payloadHash)"

definition signRequest_generate_upload_url ::
  "(string \<Rightarrow> string \<Rightarrow> int) \<Rightarrow> (string \<Rightarrow> URL option) \<Rightarrow> utc_time \<Rightarrow>
   SignRequestOptions \<Rightarrow> error + headers" where
  "signRequest_generate_upload_url localeCompare new_URL now params =
     (case new_URL (url params) of
        None \<Rightarrow> Inl TypeError_Invalid_URL
      | Some urlObj \<Rightarrow>
          (let host = hostname urlObj;
               amzDate = amzDate_of now;
               dateStamp = take 8 amzDate;
               payloadHash = toHex (sha256 (body params));
               signedHeaders = ''host;x-amz-content-sha256;x-amz-date'';
               canonicalRequest =
                 canonicalRequest_generate_upload_url localeCompare (method params) urlObj
                   amzDate payloadHash;
               algorithm = ''AWS4-HMAC-SHA256'';
               credentialScope = credentialScope_of dateStamp (region params) (service params);
               stringToSign =
                 algorithm @ ''\<newline>'' @ amzDate @ ''\<newline>'' @ credentialScope @ ''\<newline>'' @
                 toHex (sha256 canonicalRequest)
           in (case getSignatureKey (secretAccessKey params) dateStamp
                      (region params) (service params) of
                 Inl e \<Rightarrow> Inl e
               | Inr signingKey \<Rightarrow>
                   (case hmac signingKey stringToSign of
                      Inl e \<Rightarrow> Inl e
                    | Inr sig \<Rightarrow>
                        Inr [(''Host'', host),
                             (''X-Amz-Date'', amzDate),
                             (''X-Amz-Content-Sha256'', payloadHash),
                             (''Authorization'',
                                algorithm @ '' Credential='' @ accessKeyId params @ ''/'' @
                                credentialScope @ '', SignedHeaders='' @ signedHeaders @
                                '', Signature='' @ toHex sig)]))))"

section \<open>The specification's reading\<close>

text \<open>
  The signing key in the specification's words: four chained HMAC-SHA256 operations, each
  keyed by the previous result, starting from the key \<^verbatim>\<open>"AWS4" + secretKey\<close>.
\<close>

definition spec_signing_key :: "string \<Rightarrow> string \<Rightarrow> string \<Rightarrow> string \<Rightarrow> byte list" where
  "spec_signing_key secretKey dateStamp regionName serviceName =
     (let kDate = HMAC_SHA256 (encode (''AWS4'' @ secretKey)) (encode dateStamp);
          kRegion = HMAC_SHA256 kDate (encode regionName);
          kService = HMAC_SHA256 kRegion (encode serviceName);
          kSigning = HMAC_SHA256 kService (encode ''aws4_request'')
      in kSigning)"

text \<open>The signature in the specification's words: lowercase hex of the keyed digest.\<close>

definition spec_signature :: "byte list \<Rightarrow> string \<Rightarrow> string" where
  "spec_signature kSigning stringToSign = toHex (HMAC_SHA256 kSigning (encode stringToSign))"

text \<open>
  Steps 7 to 11 of the specification under a given signing key: credential scope, string
  to sign over the hashed canonical request, signature, and the \<^verbatim>\<open>Authorization\<close> value.
\<close>

definition authorization_under ::
  "byte list \<Rightarrow> string \<Rightarrow> string \<Rightarrow> string \<Rightarrow> string \<Rightarrow> string \<Rightarrow> string \<Rightarrow> string" where
  "authorization_under kSigning accessKey amzDate regionName serviceName signedHeaders canonicalRequest =
     (let credentialScope = credentialScope_of (take 8 amzDate) regionName serviceName;
          stringToSign = stringToSign_of amzDate credentialScope (hash canonicalRequest)
      in authorizationHeader_of accessKey credentialScope signedHeaders
           (spec_signature kSigning stringToSign))"

text \<open>
  The condition under which the specification expects \<^verbatim>\<open>bedrock-llm/aws-signer.ts\<close> to
  fail on its target: a url is given and does not parse, or none is given and the host or
  the path is missing.
\<close>

definition target_unparsable :: "(string \<Rightarrow> URL option) \<Rightarrow> SignRequestParams \<Rightarrow> bool" where
  "target_unparsable new_URL params =
     (case truthy (url_opt params) of
        Some u \<Rightarrow> new_URL u = None
      | None \<Rightarrow> truthy (host params) = None \<or> truthy (path params) = None)"

text \<open>Header names are compared without regard to ASCII case.\<close>

definition toLowerCase :: "string \<Rightarrow> string" where
  "toLowerCase s =
     map (\<lambda>c. if c \<in> set ''ABCDEFGHIJKLMNOPQRSTUVWXYZ'' then char_of (of_char c + (32::nat)) else c) s"

definition header_ci :: "headers \<Rightarrow> string \<Rightarrow> string option" where
  "header_ci hs name = map_of (map (\<lambda>(k, v). (toLowerCase k, v)) hs) (toLowerCase name)"

text \<open>
  A comparison is a linear order when it is reflexive, transitive and total on its
  non-positive side, and returns zero on equal arguments only.
\<close>

definition linear_compare :: "('a \<Rightarrow> 'a \<Rightarrow> int) \<Rightarrow> bool" where
  "linear_compare cmp =
     ((\<forall>a b. cmp a b \<le> 0 \<or> cmp b a \<le> 0) \<and>
      (\<forall>a b c. cmp a b \<le> 0 \<and> cmp b c \<le> 0 \<longrightarrow> cmp a c \<le> 0) \<and>
      (\<forall>a b. cmp a b \<le> 0 \<and> cmp b a \<le> 0 \<longrightarrow> a = b))"

section \<open>Example requests\<close>

text \<open>The instant 2013-05-24T00:00:00.000Z.\<close>

definition clock_2013_05_24 :: utc_time where
  "clock_2013_05_24 =
     \<lparr>utc_year = 2013, utc_month = 5, utc_day = 24,
      utc_hours = 0, utc_minutes = 0, utc_seconds = 0, utc_millis = 0\<rparr>"

text \<open>
  What \<^verbatim>\<open>new URL\<close> returns on the two URLs used below: the bucket listing with its query
  parameters in the order \<^verbatim>\<open>list-repository-files/index.ts\<close> sets them, and the same
  listing with the parameters in byte order. Every other string is treated as unparsable.
\<close>

definition listing_url :: string where
  "listing_url =
     ''https://examplebucket.s3.amazonaws.com/?list-type=2&max-keys=1000&continuation-token=abc''"

definition listing_url_sorted :: string where
  "listing_url_sorted =
     ''https://examplebucket.s3.amazonaws.com/?continuation-token=abc&list-type=2&max-keys=1000''"

definition example_URL :: "string \<Rightarrow> URL option" where
  "example_URL u =
     (if u = listing_url then
        Some \<lparr>hostname = ''examplebucket.s3.amazonaws.com'', pathname = ''/'',
              search = ''?list-type=2&max-keys=1000&continuation-token=abc'',
              searchParams =
                [(''list-type'', ''2''), (''max-keys'', ''1000''), (''continuation-token'', ''abc'')]\<rparr>
      else if u = listing_url_sorted then
        Some \<lparr>hostname = ''examplebucket.s3.amazonaws.com'', pathname = ''/'',
              search = ''?continuation-token=abc&list-type=2&max-keys=1000'',
              searchParams =
                [(''continuation-token'', ''abc''), (''list-type'', ''2''), (''max-keys'', ''1000'')]\<rparr>
      else None)"

text \<open>The request of the specification's scenario, given by host and path.\<close>

definition scenario_request :: SignRequestParams where
  "scenario_request =
     \<lparr>method = ''GET'', body = [], region = ''us-east-1'', service = ''s3'',
      accessKeyId = ''AKIDEXAMPLE'',
      secretAccessKey = ''wJalrXUtnFEMI/K7MDENG/bPxRfiCYEXAMPLEKEY'',
      url_opt = None, host = Some ''examplebucket.s3.amazonaws.com'', path = Some ''/test.txt''\<rparr>"

definition listing_request :: "string \<Rightarrow> SignRequestOptions" where
  "listing_request u =
     \<lparr>method = ''GET'', body = [], region = ''us-east-1'', service = ''s3'',
      accessKeyId = ''AKIDEXAMPLE'',
      secretAccessKey = ''wJalrXUtnFEMI/K7MDENG/bPxRfiCYEXAMPLEKEY'',
      url = u\<rparr>"

text \<open>Byte-wise comparison of strings, a linear order, as an instance of a collation.\<close>

fun bytewise :: "string \<Rightarrow> string \<Rightarrow> int" where
  "bytewise [] [] = 0"
| "bytewise [] (y # ys) = - 1"
| "bytewise (x # xs) [] = 1"
| "bytewise (x # xs) (y # ys) =
     (if x = y then bytewise xs ys
      else if (of_char x :: nat) < of_char y then - 1 else 1)"




section \<open>Facts about the primitives\<close>

text \<open>
  Code equations with the powers of two written out; they only make evaluation faster.
\<close>

lemma bsig0_code [code]:
  "bsig0 x = (x div 4 + x mod 4 * 1073741824) XOR (x div 8192 + x mod 8192 * 524288) XOR
             (x div 4194304 + x mod 4194304 * 1024)"
  by (simp add: bsig0_def rotr_def)

lemma bsig1_code [code]:
  "bsig1 x = (x div 64 + x mod 64 * 67108864) XOR (x div 2048 + x mod 2048 * 2097152) XOR
             (x div 33554432 + x mod 33554432 * 128)"
  by (simp add: bsig1_def rotr_def)

lemma ssig0_code [code]:
  "ssig0 x = (x div 128 + x mod 128 * 33554432) XOR (x div 262144 + x mod 262144 * 16384) XOR
             x div 8"
  by (simp add: ssig0_def rotr_def shr_def)

lemma ssig1_code [code]:
  "ssig1 x = (x div 131072 + x mod 131072 * 32768) XOR (x div 524288 + x mod 524288 * 8192) XOR
             x div 1024"
  by (simp add: ssig1_def rotr_def shr_def)

lemma SHA256_empty_bytes:
  "SHA256 [] =
     [0xE3, 0xB0, 0xC4, 0x42, 0x98, 0xFC, 0x1C, 0x14, 0x9A, 0xFB, 0xF4, 0xC8, 0x99, 0x6F, 0xB9, 0x24,
      0x27, 0xAE, 0x41, 0xE4, 0x64, 0x9B, 0x93, 0x4C, 0xA4, 0x95, 0x99, 0x1B, 0x78, 0x52, 0xB8, 0x55]"
  by code_simp

lemma length_word_bytes: "length (word_bytes w) = 4"
  by (simp add: word_bytes_def)

lemma length_state_bytes: "length (state_bytes s) = 32"
  by (cases s) (simp add: state_bytes_def length_word_bytes split: prod.splits)

lemma length_SHA256: "length (SHA256 m) = 32"
  by (simp add: SHA256_def length_state_bytes)

lemma length_HMAC_SHA256: "length (HMAC_SHA256 k m) = 32"
  by (simp add: HMAC_SHA256_def length_SHA256)

lemma HMAC_SHA256_nonempty: "HMAC_SHA256 k m \<noteq> []"
  using length_HMAC_SHA256 [of k m] by auto

lemma hex_nth_mem: "n < 16 \<Longrightarrow> hex_alphabet ! n \<in> set hex_alphabet"
  by (rule nth_mem) (simp add: hex_alphabet_def)

lemma length_padStart2_toString16: "length (padStart2 (toString16 n)) = 2"
  by (simp add: padStart2_def toString16_def)

lemma set_padStart2_toString16:
  "n < 256 \<Longrightarrow> set (padStart2 (toString16 n)) \<subseteq> set hex_alphabet"
proof -
  assume "n < 256"
  have a: "hex_alphabet ! (n div 16 mod 16) \<in> set hex_alphabet"
    by (rule hex_nth_mem) simp
  have b: "hex_alphabet ! (n mod 16) \<in> set hex_alphabet"
    by (rule hex_nth_mem) simp
  have c: "n < 16 \<Longrightarrow> hex_alphabet ! n \<in> set hex_alphabet"
    by (rule hex_nth_mem)
  have z: "CHR ''0'' \<in> set hex_alphabet" by (simp add: hex_alphabet_def)
  show ?thesis
    using a b c z unfolding padStart2_def toString16_def
    by (cases "n < 16") simp_all
qed

lemma length_toHex: "length (toHex bs) = 2 * length bs"
  by (induction bs) (simp_all add: toHex_def length_padStart2_toString16)

lemma set_toHex: "set (toHex bs) \<subseteq> set hex_alphabet"
proof (induction bs)
  case Nil
  show ?case by (simp add: toHex_def)
next
  case (Cons b bs)
  have "unat b < 256" using unsigned_less [of b] by simp
  from set_padStart2_toString16 [OF this] Cons show ?case
    by (simp add: toHex_def)
qed

lemma importKey_nonempty: "raw \<noteq> [] \<Longrightarrow> importKey raw = Inr raw"
  by (simp add: importKey_def)

lemma encode_eq_Nil: "(encode s = []) = (s = [])"
  by (simp add: encode_def)

lemma hmac_nonempty: "key \<noteq> [] \<Longrightarrow> hmac key dat = Inr (HMAC_SHA256 key (encode dat))"
  by (simp add: hmac_def importKey_def subtle_sign_def)

lemma hmac_hex_nonempty: "key \<noteq> [] \<Longrightarrow> hmac_hex key dat = Inr (toHex (HMAC_SHA256 key (encode dat)))"
  by (simp add: hmac_hex_def importKey_def subtle_sign_def)

lemma getSignatureKey_spec:
  "getSignatureKey key dateStamp regionName serviceName =
     Inr (spec_signing_key key dateStamp regionName serviceName)"
  by (simp add: getSignatureKey_def spec_signing_key_def hmac_nonempty encode_eq_Nil
        HMAC_SHA256_nonempty)

lemma getSignatureKey_bedrock_llm_spec:
  "getSignatureKey_bedrock_llm key dateStamp regionName serviceName =
     Inr (HMAC_SHA256 (HMAC_SHA256 (HMAC_SHA256 (encode (''AWS4'' @ key)) (encode dateStamp))
            (encode regionName)) (encode serviceName))"
  by (simp add: getSignatureKey_bedrock_llm_def importKey_nonempty encode_eq_Nil
        HMAC_SHA256_nonempty subtle_sign_def)

lemma spec_signing_key_nonempty: "spec_signing_key k d r s \<noteq> []"
  by (simp add: spec_signing_key_def HMAC_SHA256_nonempty)

lemma list_s3_objects_success:
  assumes "new_URL (url params) = Some urlObj"
  shows "signRequest_list_s3_objects new_URL now params =
     Inr [(''Authorization'',
            authorization_under
              (spec_signing_key (secretAccessKey params) (take 8 (amzDate_of now))
                 (region params) (service params))
              (accessKeyId params) (amzDate_of now) (region params) (service params)
              ''host;x-amz-date''
              (canonicalRequest_list_s3_objects (method params) urlObj (amzDate_of now)
                 (hash (body params)))),
          (''x-amz-date'', amzDate_of now),
          (''x-amz-content-sha256'', hash (body params))]"
  using assms
  by (simp add: signRequest_list_s3_objects_def getSignatureKey_spec hmac_hex_nonempty spec_signing_key_nonempty
        authorization_under_def spec_signature_def hash_def sha256_def Let_def)

lemma list_repository_files_success:
  assumes "new_URL (url params) = Some urlObj"
  shows "signRequest_list_repository_files new_URL now params =
     Inr [(''Authorization'',
            authorization_under
              (spec_signing_key (secretAccessKey params) (take 8 (amzDate_of now))
                 (region params) (service params))
              (accessKeyId params) (amzDate_of now) (region params) (service params)
              ''host;x-amz-date''
              (canonicalRequest_list_repository_files (method params) urlObj (amzDate_of now)
                 (hash (body params)))),
          (''x-amz-date'', amzDate_of now),
          (''x-amz-content-sha256'', hash (body params))]"
  using assms
  by (simp add: signRequest_list_repository_files_def hmac_nonempty encode_eq_Nil HMAC_SHA256_nonempty spec_signing_key_def
        authorization_under_def spec_signature_def hash_def sha256_def Let_def)

lemma part_001_success:
  assumes "new_URL (url params) = Some urlObj"
  shows "signRequest_part_001 new_URL now params =
     Inr [(''Authorization'',
            authorization_under
              (spec_signing_key (secretAccessKey params) (take 8 (amzDate_of now))
                 (region params) (service params))
              (accessKeyId params) (amzDate_of now) (region params) (service params)
              ''host;x-amz-date''
              (canonicalRequest_part_001 (method params) urlObj (amzDate_of now)
                 (hash (body params)))),
          (''x-amz-date'', amzDate_of now),
          (''x-amz-content-sha256'', hash (body params))]"
  using assms
  by (simp add: signRequest_part_001_def stringToSign_part_001_def stringToSign_of_def authorizationHeader_of_def hmac_nonempty encode_eq_Nil HMAC_SHA256_nonempty spec_signing_key_def
        authorization_under_def spec_signature_def hash_def sha256_def Let_def)

lemma bedrock_llm_success:
  assumes "final_target new_URL params = Inr (finalHost, finalPath)"
  shows "signRequest_bedrock_llm new_URL now params =
     Inr [(''Host'', finalHost),
          (''X-Amz-Date'', amzDate_of now),
          (''Authorization'',
            authorization_under
              (HMAC_SHA256 (HMAC_SHA256 (HMAC_SHA256 (encode (''AWS4'' @ secretAccessKey params))
                 (encode (take 8 (amzDate_of now)))) (encode (region params))) (encode (service params)))
              (accessKeyId params) (amzDate_of now) (region params) (service params)
              ''host;x-amz-date''
              (canonicalRequest_bedrock_llm (method params) finalPath finalHost (amzDate_of now)
                 (hash (body params)))),
          (''Content-Type'', ''application/json'')]"
  using assms
  by (simp add: signRequest_bedrock_llm_def getSignatureKey_bedrock_llm_spec importKey_nonempty HMAC_SHA256_nonempty subtle_sign_def
        authorization_under_def spec_signature_def hash_def sha256_def Let_def)

lemma list_foundation_models_success:
  assumes "new_URL (url params) = Some urlObj"
  shows "signRequest_list_foundation_models new_URL now params =
     Inr [(''Content-Type'', ''application/json''),
          (''Host'', hostname urlObj),
          (''X-Amz-Date'', amzDate_of now),
          (''Authorization'',
            authorization_under
              (spec_signing_key (secretAccessKey params) (take 8 (amzDate_of now))
                 (region params) (service params))
              (accessKeyId params) (amzDate_of now) (region params) (service params)
              ''content-type;host;x-amz-date''
              (method params @ ''\<newline>'' @ canonicalURI_lfm (pathname urlObj) @ ''\<newline>\<newline>'' @
               ''content-type:application/json\<newline>host:'' @ hostname urlObj @
               ''\<newline>x-amz-date:'' @ amzDate_of now @ ''\<newline>'' @ ''\<newline>'' @
               ''content-type;host;x-amz-date'' @ ''\<newline>'' @ hash (body params)))]"
  using assms
  by (simp add: signRequest_list_foundation_models_def getSignatureKey_spec hmac_nonempty spec_signing_key_nonempty stringToSign_of_def authorizationHeader_of_def
        authorization_under_def spec_signature_def hash_def sha256_def Let_def)

lemma length_dec: "length (dec w n) = w"
  by (induction w arbitrary: n) simp_all

lemma digit_nth: "digits ! (n mod 10) \<in> set digits"
  by (rule nth_mem) (simp add: digits_def)

lemma digits_dec: "list_all is_digit (dec w n)"
  by (induction w arbitrary: n) (simp_all add: is_digit_def digit_nth)

lemma is_digit_not_punct:
  "is_digit c \<Longrightarrow> c \<noteq> CHR '':'' \<and> c \<noteq> CHR ''-'' \<and> c \<noteq> CHR ''.''"
  by (auto simp: is_digit_def digits_def)

lemma strip_punct_digits:
  "list_all is_digit ds \<Longrightarrow> strip_punct (ds @ rest) = ds @ strip_punct rest"
  by (induction ds) (simp_all add: is_digit_not_punct)

lemma strip_punct_dec: "strip_punct (dec w n @ rest) = dec w n @ strip_punct rest"
  by (rule strip_punct_digits [OF digits_dec])

lemma strip_punct_millis: "strip_punct (CHR ''.'' # dec 3 n @ rest) = strip_punct rest"
  by (simp add: length_dec digits_dec)

lemma strip_punct_marks:
  "strip_punct (CHR ''-'' # r) = strip_punct r"
  "strip_punct (CHR '':'' # r) = strip_punct r"
  "strip_punct (CHR ''T'' # r) = CHR ''T'' # strip_punct r"
  "strip_punct ''Z'' = ''Z''"
  by simp_all

lemma amzDate_of_format:
  assumes "utc_year now \<le> 9999"
  shows "amzDate_of now =
     dec 4 (utc_year now) @ dec 2 (utc_month now) @ dec 2 (utc_day now) @ ''T'' @
     dec 2 (utc_hours now) @ dec 2 (utc_minutes now) @ dec 2 (utc_seconds now) @ ''Z''"
  using assms
  by (simp add: amzDate_of_def toISOString_def strip_punct_dec strip_punct_millis
        strip_punct_marks del: strip_punct.simps)

lemma dateStamp_format:
  assumes "utc_year now \<le> 9999"
  shows "take 8 (amzDate_of now) =
     dec 4 (utc_year now) @ dec 2 (utc_month now) @ dec 2 (utc_day now)"
  by (simp add: amzDate_of_format [OF assms] length_dec)

lemma bedrock_llm_failure:
  "final_target new_URL params = Inl e \<Longrightarrow> signRequest_bedrock_llm new_URL now params = Inl e"
  by (simp add: signRequest_bedrock_llm_def)

lemma list_s3_objects_failure:
  "new_URL (url params) = None \<Longrightarrow>
   signRequest_list_s3_objects new_URL now params = Inl TypeError_Invalid_URL"
  by (simp add: signRequest_list_s3_objects_def)

lemma list_repository_files_failure:
  "new_URL (url params) = None \<Longrightarrow>
   signRequest_list_repository_files new_URL now params = Inl TypeError_Invalid_URL"
  by (simp add: signRequest_list_repository_files_def)

lemma final_target_unparsable:
  "(\<exists>e. final_target new_URL params = Inl e) = target_unparsable new_URL params"
  by (auto simp: final_target_def target_unparsable_def split: option.splits)

lemma length_spec_signature: "length (spec_signature k s) = 64"
  by (simp add: spec_signature_def length_toHex length_HMAC_SHA256)

lemma set_spec_signature: "set (spec_signature k s) \<subseteq> set hex_alphabet"
  by (simp add: spec_signature_def set_toHex)

lemma authorization_under_shape:
  "authorization_under k a d r s sh cr =
     authorizationHeader_of a (credentialScope_of (take 8 d) r s) sh
       (spec_signature k (stringToSign_of d (credentialScope_of (take 8 d) r s) (hash cr)))"
  by (simp add: authorization_under_def Let_def)

section \<open>The claims\<close>

text \<open>
  C10. Whenever \<^verbatim>\<open>signRequest\<close> of \<^verbatim>\<open>bedrock-llm/aws-signer.ts\<close> or of
  \<^verbatim>\<open>list-s3-objects/index.ts\<close> succeeds, the \<^verbatim>\<open>Signature\<close> component that ends the
  returned \<^verbatim>\<open>Authorization\<close> header is exactly 64 characters long and every character is
  one of the lowercase hexadecimal digits.
\<close>

theorem signature_is_64_lowercase_hex:
  "(signRequest_bedrock_llm new_URL now params = Inr hs \<longrightarrow>
      (\<exists>sig. map_of hs ''Authorization'' =
               Some (authorizationHeader_of (accessKeyId params)
                      (credentialScope_of (take 8 (amzDate_of now)) (region params) (service params))
                      ''host;x-amz-date'' sig) \<and>
             length sig = 64 \<and> set sig \<subseteq> set ''0123456789abcdef'')) \<and>
   (signRequest_list_s3_objects new_URL now params' = Inr hs' \<longrightarrow>
      (\<exists>sig. map_of hs' ''Authorization'' =
               Some (authorizationHeader_of (accessKeyId params')
                      (credentialScope_of (take 8 (amzDate_of now)) (region params') (service params'))
                      ''host;x-amz-date'' sig) \<and>
             length sig = 64 \<and> set sig \<subseteq> set ''0123456789abcdef''))"
proof (intro conjI impI)
  assume ok: "signRequest_bedrock_llm new_URL now params = Inr hs"
  obtain h p where t: "final_target new_URL params = Inr (h, p)"
    using ok bedrock_llm_failure [of new_URL params _ now]
    by (cases "final_target new_URL params") auto
  show "\<exists>sig. map_of hs ''Authorization'' =
               Some (authorizationHeader_of (accessKeyId params)
                      (credentialScope_of (take 8 (amzDate_of now)) (region params) (service params))
                      ''host;x-amz-date'' sig) \<and>
             length sig = 64 \<and> set sig \<subseteq> set ''0123456789abcdef''"
    using ok length_spec_signature set_spec_signature
    unfolding bedrock_llm_success [where new_URL = new_URL and params = params, OF t] authorization_under_shape hex_alphabet_def
    by fastforce
next
  assume ok: "signRequest_list_s3_objects new_URL now params' = Inr hs'"
  obtain u where t: "new_URL (url params') = Some u"
    using ok list_s3_objects_failure [of new_URL params' now]
    by (cases "new_URL (url params')") auto
  show "\<exists>sig. map_of hs' ''Authorization'' =
               Some (authorizationHeader_of (accessKeyId params')
                      (credentialScope_of (take 8 (amzDate_of now)) (region params') (service params'))
                      ''host;x-amz-date'' sig) \<and>
             length sig = 64 \<and> set sig \<subseteq> set ''0123456789abcdef''"
    using ok length_spec_signature set_spec_signature
    unfolding list_s3_objects_success [where new_URL = new_URL and params = params', OF t] authorization_under_shape hex_alphabet_def
    by fastforce
qed

lemma example_URL_listing:
  "example_URL listing_url =
     Some \<lparr>hostname = ''examplebucket.s3.amazonaws.com'', pathname = ''/'',
           search = ''?list-type=2&max-keys=1000&continuation-token=abc'',
           searchParams =
             [(''list-type'', ''2''), (''max-keys'', ''1000''), (''continuation-token'', ''abc'')]\<rparr>"
  by (simp add: example_URL_def)

lemma final_target_scenario:
  "final_target new_URL scenario_request = Inr (''examplebucket.s3.amazonaws.com'', ''/test.txt'')"
  by (simp add: final_target_def scenario_request_def truthy_def)

theorem signature_is_64_lowercase_hex_witness:
  "(\<exists>hs sig. signRequest_bedrock_llm example_URL clock_2013_05_24 scenario_request = Inr hs \<and>
      map_of hs ''Authorization'' =
        Some (authorizationHeader_of (accessKeyId scenario_request)
               (credentialScope_of (take 8 (amzDate_of clock_2013_05_24))
                  (region scenario_request) (service scenario_request))
               ''host;x-amz-date'' sig) \<and>
      length sig = 64 \<and> set sig \<subseteq> set ''0123456789abcdef'') \<and>
   (\<exists>hs sig. signRequest_list_s3_objects example_URL clock_2013_05_24 (listing_request listing_url) = Inr hs \<and>
      map_of hs ''Authorization'' =
        Some (authorizationHeader_of (accessKeyId (listing_request listing_url))
               (credentialScope_of (take 8 (amzDate_of clock_2013_05_24))
                  (region (listing_request listing_url)) (service (listing_request listing_url)))
               ''host;x-amz-date'' sig) \<and>
      length sig = 64 \<and> set sig \<subseteq> set ''0123456789abcdef'')"
proof -
  obtain hs where a: "signRequest_bedrock_llm example_URL clock_2013_05_24 scenario_request = Inr hs"
    using bedrock_llm_success [where new_URL = example_URL and params = scenario_request, OF final_target_scenario] by blast
  have u: "example_URL (url (listing_request listing_url)) = Some
     \<lparr>hostname = ''examplebucket.s3.amazonaws.com'', pathname = ''/'',
           search = ''?list-type=2&max-keys=1000&continuation-token=abc'',
           searchParams =
             [(''list-type'', ''2''), (''max-keys'', ''1000''), (''continuation-token'', ''abc'')]\<rparr>"
    by (simp add: listing_request_def example_URL_listing)
  obtain hs' where b: "signRequest_list_s3_objects example_URL clock_2013_05_24 (listing_request listing_url) = Inr hs'"
    using list_s3_objects_success [where new_URL = example_URL and params = "listing_request listing_url", OF u] by blast
  show ?thesis
    using signature_is_64_lowercase_hex [of example_URL clock_2013_05_24 scenario_request hs
        "listing_request listing_url" hs'] a b
    by blast
qed

lemma hash_empty:
  "hash [] = ''e3b0c44298fc1c149afbf4c8996fb92427ae41e4649b934ca495991b7852b855''"
proof -
  have "hash [] = toHex (SHA256 [])"
    by (simp add: hash_def encode_def)
  also have "\<dots> = ''e3b0c44298fc1c149afbf4c8996fb92427ae41e4649b934ca495991b7852b855''"
    unfolding SHA256_empty_bytes by code_simp
  finally show ?thesis .
qed

lemma canonicalRequest_list_s3_objects_lines:
  "canonicalRequest_list_s3_objects meth urlObj amzDate payloadHash =
     meth @ ''\<newline>'' @ (pathname urlObj @ search urlObj) @ ''\<newline>'' @ [] @ ''\<newline>'' @
     (''host:'' @ hostname urlObj @ ''\<newline>x-amz-date:'' @ amzDate @ ''\<newline>'') @ ''\<newline>'' @
     ''host;x-amz-date'' @ ''\<newline>'' @ payloadHash"
  by (simp add: canonicalRequest_list_s3_objects_def)

lemma canonicalRequest_bedrock_llm_lines:
  "canonicalRequest_bedrock_llm meth finalPath finalHost amzDate bodyHashHex =
     meth @ ''\<newline>'' @ finalPath @ ''\<newline>'' @ [] @ ''\<newline>'' @
     (''host:'' @ finalHost @ ''\<newline>x-amz-date:'' @ amzDate @ ''\<newline>'') @ ''\<newline>'' @
     ''host;x-amz-date'' @ ''\<newline>'' @ bodyHashHex"
  by (simp add: canonicalRequest_bedrock_llm_def)

text \<open>
  C7. When the body is the empty string, the payload hash is
  \<^verbatim>\<open>e3b0c44298fc1c149afbf4c8996fb92427ae41e4649b934ca495991b7852b855\<close>: \<^verbatim>\<open>hash\<close> of
  \<^verbatim>\<open>list-s3-objects/index.ts\<close> returns it, that signer sends it as
  \<^verbatim>\<open>x-amz-content-sha256\<close>, and in both that signer and \<^verbatim>\<open>bedrock-llm/aws-signer.ts\<close> it
  is the last line of the canonical request whose hash is signed.
\<close>

theorem empty_body_payload_hash:
  fixes params :: SignRequestOptions and params' :: SignRequestParams
  assumes "body params = []" and "body params' = []"
  shows
    "hash (body params) = ''e3b0c44298fc1c149afbf4c8996fb92427ae41e4649b934ca495991b7852b855'' \<and>
     (new_URL (url params) = Some urlObj \<longrightarrow>
        signRequest_list_s3_objects new_URL now params =
          Inr [(''Authorization'',
                 authorization_under
                   (spec_signing_key (secretAccessKey params) (take 8 (amzDate_of now))
                      (region params) (service params))
                   (accessKeyId params) (amzDate_of now) (region params) (service params)
                   ''host;x-amz-date''
                   (method params @ ''\<newline>'' @ (pathname urlObj @ search urlObj) @ ''\<newline>'' @ [] @
                    ''\<newline>'' @
                    (''host:'' @ hostname urlObj @ ''\<newline>x-amz-date:'' @ amzDate_of now @ ''\<newline>'') @
                    ''\<newline>'' @ ''host;x-amz-date'' @ ''\<newline>'' @
                    ''e3b0c44298fc1c149afbf4c8996fb92427ae41e4649b934ca495991b7852b855'')),
               (''x-amz-date'', amzDate_of now),
               (''x-amz-content-sha256'',
                 ''e3b0c44298fc1c149afbf4c8996fb92427ae41e4649b934ca495991b7852b855'')]) \<and>
     (final_target new_URL' params' = Inr (finalHost, finalPath) \<longrightarrow>
        (\<exists>kSigning.
           signRequest_bedrock_llm new_URL' now params' =
             Inr [(''Host'', finalHost),
                  (''X-Amz-Date'', amzDate_of now),
                  (''Authorization'',
                    authorization_under kSigning
                      (accessKeyId params') (amzDate_of now) (region params') (service params')
                      ''host;x-amz-date''
                      (method params' @ ''\<newline>'' @ finalPath @ ''\<newline>'' @ [] @ ''\<newline>'' @
                       (''host:'' @ finalHost @ ''\<newline>x-amz-date:'' @ amzDate_of now @ ''\<newline>'') @
                       ''\<newline>'' @ ''host;x-amz-date'' @ ''\<newline>'' @
                       ''e3b0c44298fc1c149afbf4c8996fb92427ae41e4649b934ca495991b7852b855'')),
                  (''Content-Type'', ''application/json'')]))"
proof (intro conjI impI)
  show "hash (body params) = ''e3b0c44298fc1c149afbf4c8996fb92427ae41e4649b934ca495991b7852b855''"
    by (simp only: assms hash_empty)
next
  assume u: "new_URL (url params) = Some urlObj"
  show "signRequest_list_s3_objects new_URL now params =
          Inr [(''Authorization'',
                 authorization_under
                   (spec_signing_key (secretAccessKey params) (take 8 (amzDate_of now))
                      (region params) (service params))
                   (accessKeyId params) (amzDate_of now) (region params) (service params)
                   ''host;x-amz-date''
                   (method params @ ''\<newline>'' @ (pathname urlObj @ search urlObj) @ ''\<newline>'' @ [] @
                    ''\<newline>'' @
                    (''host:'' @ hostname urlObj @ ''\<newline>x-amz-date:'' @ amzDate_of now @ ''\<newline>'') @
                    ''\<newline>'' @ ''host;x-amz-date'' @ ''\<newline>'' @
                    ''e3b0c44298fc1c149afbf4c8996fb92427ae41e4649b934ca495991b7852b855'')),
               (''x-amz-date'', amzDate_of now),
               (''x-amz-content-sha256'',
                 ''e3b0c44298fc1c149afbf4c8996fb92427ae41e4649b934ca495991b7852b855'')]"
    by (simp only: list_s3_objects_success [where new_URL = new_URL and params = params, OF u]
          assms hash_empty canonicalRequest_list_s3_objects_lines)
next
  assume t: "final_target new_URL' params' = Inr (finalHost, finalPath)"
  show "\<exists>kSigning.
           signRequest_bedrock_llm new_URL' now params' =
             Inr [(''Host'', finalHost),
                  (''X-Amz-Date'', amzDate_of now),
                  (''Authorization'',
                    authorization_under kSigning
                      (accessKeyId params') (amzDate_of now) (region params') (service params')
                      ''host;x-amz-date''
                      (method params' @ ''\<newline>'' @ finalPath @ ''\<newline>'' @ [] @ ''\<newline>'' @
                       (''host:'' @ finalHost @ ''\<newline>x-amz-date:'' @ amzDate_of now @ ''\<newline>'') @
                       ''\<newline>'' @ ''host;x-amz-date'' @ ''\<newline>'' @
                       ''e3b0c44298fc1c149afbf4c8996fb92427ae41e4649b934ca495991b7852b855'')),
                  (''Content-Type'', ''application/json'')]"
    by (rule exI, simp only: bedrock_llm_success [where new_URL = new_URL' and params = params', OF t]
          assms hash_empty canonicalRequest_bedrock_llm_lines)
qed

lemma example_URL_listing_request:
  "example_URL (url (listing_request listing_url)) =
     Some \<lparr>hostname = ''examplebucket.s3.amazonaws.com'', pathname = ''/'',
           search = ''?list-type=2&max-keys=1000&continuation-token=abc'',
           searchParams =
             [(''list-type'', ''2''), (''max-keys'', ''1000''), (''continuation-token'', ''abc'')]\<rparr>"
  by (simp add: listing_request_def example_URL_listing)

lemma amzDate_of_clock: "amzDate_of clock_2013_05_24 = ''20130524T000000Z''"
  by code_simp

theorem empty_body_payload_hash_witness:
  "hash (body (listing_request listing_url)) =
     ''e3b0c44298fc1c149afbf4c8996fb92427ae41e4649b934ca495991b7852b855'' \<and>
   map_of (projr (signRequest_list_s3_objects example_URL clock_2013_05_24 (listing_request listing_url)))
     ''x-amz-content-sha256'' =
     Some ''e3b0c44298fc1c149afbf4c8996fb92427ae41e4649b934ca495991b7852b855'' \<and>
   (\<exists>kSigning.
      map_of (projr (signRequest_bedrock_llm example_URL clock_2013_05_24 scenario_request))
        ''Authorization'' =
        Some (authorization_under kSigning ''AKIDEXAMPLE'' ''20130524T000000Z'' ''us-east-1'' ''s3''
               ''host;x-amz-date''
               (''GET'' @ ''\<newline>'' @ ''/test.txt'' @ ''\<newline>'' @ [] @ ''\<newline>'' @
                (''host:'' @ ''examplebucket.s3.amazonaws.com'' @ ''\<newline>x-amz-date:'' @
                 ''20130524T000000Z'' @ ''\<newline>'') @
                ''\<newline>'' @ ''host;x-amz-date'' @ ''\<newline>'' @
                ''e3b0c44298fc1c149afbf4c8996fb92427ae41e4649b934ca495991b7852b855'')))"
proof -
  have b1: "body (listing_request listing_url) = []"
    by (simp add: listing_request_def)
  have b2: "body scenario_request = []"
    by (simp add: scenario_request_def)
  note th = empty_body_payload_hash [OF b1 b2, where new_URL = example_URL
      and new_URL' = example_URL and now = clock_2013_05_24]
  from th have h: "hash (body (listing_request listing_url)) =
     ''e3b0c44298fc1c149afbf4c8996fb92427ae41e4649b934ca495991b7852b855''"
    by blast
  from th example_URL_listing_request
  have s3: "map_of (projr (signRequest_list_s3_objects example_URL clock_2013_05_24
               (listing_request listing_url))) ''x-amz-content-sha256'' =
     Some ''e3b0c44298fc1c149afbf4c8996fb92427ae41e4649b934ca495991b7852b855''"
    by simp
  from th final_target_scenario [of example_URL]
  obtain k where "signRequest_bedrock_llm example_URL clock_2013_05_24 scenario_request =
             Inr [(''Host'', ''examplebucket.s3.amazonaws.com''),
                  (''X-Amz-Date'', amzDate_of clock_2013_05_24),
                  (''Authorization'',
                    authorization_under k
                      (accessKeyId scenario_request) (amzDate_of clock_2013_05_24)
                      (region scenario_request) (service scenario_request)
                      ''host;x-amz-date''
                      (method scenario_request @ ''\<newline>'' @ ''/test.txt'' @ ''\<newline>'' @ [] @ ''\<newline>'' @
                       (''host:'' @ ''examplebucket.s3.amazonaws.com'' @ ''\<newline>x-amz-date:'' @ amzDate_of clock_2013_05_24 @ ''\<newline>'') @
                       ''\<newline>'' @ ''host;x-amz-date'' @ ''\<newline>'' @
                       ''e3b0c44298fc1c149afbf4c8996fb92427ae41e4649b934ca495991b7852b855'')),
                  (''Content-Type'', ''application/json'')]"
    by blast
  then have bl: "\<exists>kSigning.
      map_of (projr (signRequest_bedrock_llm example_URL clock_2013_05_24 scenario_request))
        ''Authorization'' =
        Some (authorization_under kSigning ''AKIDEXAMPLE'' ''20130524T000000Z'' ''us-east-1'' ''s3''
               ''host;x-amz-date''
               (''GET'' @ ''\<newline>'' @ ''/test.txt'' @ ''\<newline>'' @ [] @ ''\<newline>'' @
                (''host:'' @ ''examplebucket.s3.amazonaws.com'' @ ''\<newline>x-amz-date:'' @
                 ''20130524T000000Z'' @ ''\<newline>'') @
                ''\<newline>'' @ ''host;x-amz-date'' @ ''\<newline>'' @
                ''e3b0c44298fc1c149afbf4c8996fb92427ae41e4649b934ca495991b7852b855''))"
    by (intro exI [of _ k]) (simp add: amzDate_of_clock scenario_request_def)
  from h s3 bl show ?thesis by blast
qed


lemma example_URL_listing_sorted:
  "example_URL (url (listing_request listing_url_sorted)) =
     Some \<lparr>hostname = ''examplebucket.s3.amazonaws.com'', pathname = ''/'',
           search = ''?continuation-token=abc&list-type=2&max-keys=1000'',
           searchParams =
             [(''continuation-token'', ''abc''), (''list-type'', ''2''), (''max-keys'', ''1000'')]\<rparr>"
  by (simp add: listing_request_def example_URL_def listing_url_def listing_url_sorted_def)


text \<open>
  C8. In the signer of \<^verbatim>\<open>part_001\<close>, for a clock reading whose year has at most four
  digits, \<^verbatim>\<open>amzDate\<close> is that instant printed as \<^verbatim>\<open>YYYYMMDDTHHMMSSZ\<close> and \<^verbatim>\<open>dateStamp\<close> is
  its first eight characters; the one \<^verbatim>\<open>amzDate\<close> value is returned as \<^verbatim>\<open>x-amz-date\<close>,
  stands in the signed canonical headers and in the string to sign, and its date stamp
  stands in the credential scope and keys the signing key.
\<close>

theorem amzDate_computed_once:
  assumes "utc_year now \<le> 9999"
  shows
    "amzDate_of now =
       dec 4 (utc_year now) @ dec 2 (utc_month now) @ dec 2 (utc_day now) @ ''T'' @
       dec 2 (utc_hours now) @ dec 2 (utc_minutes now) @ dec 2 (utc_seconds now) @ ''Z'' \<and>
     take 8 (amzDate_of now) =
       dec 4 (utc_year now) @ dec 2 (utc_month now) @ dec 2 (utc_day now) \<and>
     (new_URL (url params) = Some urlObj \<longrightarrow>
        signRequest_part_001 new_URL now params =
          Inr [(''Authorization'',
                 ''AWS4-HMAC-SHA256 Credential='' @ accessKeyId params @ ''/'' @
                 (take 8 (amzDate_of now) @ ''/'' @ region params @ ''/'' @ service params @
                  ''/aws4_request'') @
                 '', SignedHeaders=host;x-amz-date, Signature='' @
                 toHex (HMAC_SHA256
                          (spec_signing_key (secretAccessKey params) (take 8 (amzDate_of now))
                             (region params) (service params))
                          (encode
                             (''AWS4-HMAC-SHA256'' @ ''\<newline>'' @ amzDate_of now @ ''\<newline>'' @
                              (take 8 (amzDate_of now) @ ''/'' @ region params @ ''/'' @
                               service params @ ''/aws4_request'') @ ''\<newline>'' @
                              hash (method params @ ''\<newline>'' @
                                    (if pathname urlObj = [] then ''/'' else pathname urlObj) @
                                    ''\<newline>'' @ drop 1 (search urlObj) @ ''\<newline>'' @
                                    (''host:'' @ hostname urlObj @ ''\<newline>x-amz-date:'' @
                                     amzDate_of now @ ''\<newline>'') @
                                    ''\<newline>'' @ ''host;x-amz-date'' @ ''\<newline>'' @
                                    hash (body params)))))),
               (''x-amz-date'', amzDate_of now),
               (''x-amz-content-sha256'', hash (body params))])"
proof (intro conjI impI)
  show "amzDate_of now =
       dec 4 (utc_year now) @ dec 2 (utc_month now) @ dec 2 (utc_day now) @ ''T'' @
       dec 2 (utc_hours now) @ dec 2 (utc_minutes now) @ dec 2 (utc_seconds now) @ ''Z''"
    by (rule amzDate_of_format [OF assms])
next
  show "take 8 (amzDate_of now) =
       dec 4 (utc_year now) @ dec 2 (utc_month now) @ dec 2 (utc_day now)"
    by (rule dateStamp_format [OF assms])
next
  assume u: "new_URL (url params) = Some urlObj"
  show "signRequest_part_001 new_URL now params =
          Inr [(''Authorization'',
                 ''AWS4-HMAC-SHA256 Credential='' @ accessKeyId params @ ''/'' @
                 (take 8 (amzDate_of now) @ ''/'' @ region params @ ''/'' @ service params @
                  ''/aws4_request'') @
                 '', SignedHeaders=host;x-amz-date, Signature='' @
                 toHex (HMAC_SHA256
                          (spec_signing_key (secretAccessKey params) (take 8 (amzDate_of now))
                             (region params) (service params))
                          (encode
                             (''AWS4-HMAC-SHA256'' @ ''\<newline>'' @ amzDate_of now @ ''\<newline>'' @
                              (take 8 (amzDate_of now) @ ''/'' @ region params @ ''/'' @
                               service params @ ''/aws4_request'') @ ''\<newline>'' @
                              hash (method params @ ''\<newline>'' @
                                    (if pathname urlObj = [] then ''/'' else pathname urlObj) @
                                    ''\<newline>'' @ drop 1 (search urlObj) @ ''\<newline>'' @
                                    (''host:'' @ hostname urlObj @ ''\<newline>x-amz-date:'' @
                                     amzDate_of now @ ''\<newline>'') @
                                    ''\<newline>'' @ ''host;x-amz-date'' @ ''\<newline>'' @
                                    hash (body params)))))),
               (''x-amz-date'', amzDate_of now),
               (''x-amz-content-sha256'', hash (body params))]"
    unfolding part_001_success [where new_URL = new_URL and params = params, OF u]
      authorization_under_shape
    by (simp add: authorizationHeader_of_def spec_signature_def credentialScope_of_def
          stringToSign_of_def canonicalRequest_part_001_def)
qed

theorem amzDate_computed_once_witness:
  "amzDate_of clock_2013_05_24 = ''20130524T000000Z'' \<and>
   take 8 (amzDate_of clock_2013_05_24) = ''20130524'' \<and>
   map_of (projr (signRequest_part_001 example_URL clock_2013_05_24 (listing_request listing_url)))
     ''x-amz-date'' = Some ''20130524T000000Z''"
proof -
  have y: "utc_year clock_2013_05_24 \<le> 9999"
    by (simp add: clock_2013_05_24_def)
  note th = amzDate_computed_once [OF y, where new_URL = example_URL
      and params = "listing_request listing_url"]
  have d: "dec 4 (utc_year clock_2013_05_24) @ dec 2 (utc_month clock_2013_05_24) @
        dec 2 (utc_day clock_2013_05_24) @ ''T'' @ dec 2 (utc_hours clock_2013_05_24) @
        dec 2 (utc_minutes clock_2013_05_24) @ dec 2 (utc_seconds clock_2013_05_24) @ ''Z'' =
        ''20130524T000000Z''"
    by code_simp
  from th d have a: "amzDate_of clock_2013_05_24 = ''20130524T000000Z''"
    by simp
  from th example_URL_listing_request
  have "map_of (projr (signRequest_part_001 example_URL clock_2013_05_24
           (listing_request listing_url))) ''x-amz-date'' = Some (amzDate_of clock_2013_05_24)"
    by simp
  with a show ?thesis by simp
qed

text \<open>
  C9. In the signer of \<^verbatim>\<open>list-s3-objects/index.ts\<close>, for a URL with a non-empty query the
  second line of the signed canonical request is the path followed by \<^verbatim>\<open>?\<close> and the query
  exactly as the URL object holds them, and the third line is empty.
\<close>

theorem list_s3_objects_query_in_uri_line:
  assumes "new_URL (url params) = Some urlObj"
    and "search urlObj = CHR ''?'' # query" and "query \<noteq> []"
  shows
    "signRequest_list_s3_objects new_URL now params =
       Inr [(''Authorization'',
              authorization_under
                (spec_signing_key (secretAccessKey params) (take 8 (amzDate_of now))
                   (region params) (service params))
                (accessKeyId params) (amzDate_of now) (region params) (service params)
                ''host;x-amz-date''
                (method params @ ''\<newline>'' @
                 (pathname urlObj @ ''?'' @ query) @ ''\<newline>'' @
                 [] @ ''\<newline>'' @
                 (''host:'' @ hostname urlObj @ ''\<newline>x-amz-date:'' @ amzDate_of now @ ''\<newline>'') @
                 ''\<newline>'' @ ''host;x-amz-date'' @ ''\<newline>'' @ hash (body params))),
            (''x-amz-date'', amzDate_of now),
            (''x-amz-content-sha256'', hash (body params))]"
  unfolding list_s3_objects_success [where new_URL = new_URL and params = params, OF assms(1)]
    canonicalRequest_list_s3_objects_lines assms(2)
  by simp

theorem list_s3_objects_query_in_uri_line_witness:
  "\<exists>auth. signRequest_list_s3_objects example_URL clock_2013_05_24 (listing_request listing_url) =
       Inr [(''Authorization'',
              authorization_under auth ''AKIDEXAMPLE'' ''20130524T000000Z'' ''us-east-1'' ''s3''
                ''host;x-amz-date''
                (''GET'' @ ''\<newline>'' @
                 (''/'' @ ''?'' @ ''list-type=2&max-keys=1000&continuation-token=abc'') @ ''\<newline>'' @
                 [] @ ''\<newline>'' @
                 (''host:'' @ ''examplebucket.s3.amazonaws.com'' @ ''\<newline>x-amz-date:'' @
                  ''20130524T000000Z'' @ ''\<newline>'') @
                 ''\<newline>'' @ ''host;x-amz-date'' @ ''\<newline>'' @
                 ''e3b0c44298fc1c149afbf4c8996fb92427ae41e4649b934ca495991b7852b855'')),
            (''x-amz-date'', ''20130524T000000Z''),
            (''x-amz-content-sha256'',
              ''e3b0c44298fc1c149afbf4c8996fb92427ae41e4649b934ca495991b7852b855'')]"
proof -
  have b: "hash (body (listing_request listing_url)) =
      ''e3b0c44298fc1c149afbf4c8996fb92427ae41e4649b934ca495991b7852b855''"
    by (simp add: listing_request_def hash_empty)
  have "signRequest_list_s3_objects example_URL clock_2013_05_24 (listing_request listing_url) =
       Inr [(''Authorization'',
              authorization_under
                (spec_signing_key (secretAccessKey (listing_request listing_url))
                   (take 8 (amzDate_of clock_2013_05_24))
                   (region (listing_request listing_url)) (service (listing_request listing_url)))
                (accessKeyId (listing_request listing_url)) (amzDate_of clock_2013_05_24)
                (region (listing_request listing_url)) (service (listing_request listing_url))
                ''host;x-amz-date''
                (method (listing_request listing_url) @ ''\<newline>'' @
                 (pathname \<lparr>hostname = ''examplebucket.s3.amazonaws.com'', pathname = ''/'',
           search = ''?list-type=2&max-keys=1000&continuation-token=abc'',
           searchParams =
             [(''list-type'', ''2''), (''max-keys'', ''1000''), (''continuation-token'', ''abc'')]\<rparr> @ ''?'' @ ''list-type=2&max-keys=1000&continuation-token=abc'') @ ''\<newline>'' @
                 [] @ ''\<newline>'' @
                 (''host:'' @ hostname \<lparr>hostname = ''examplebucket.s3.amazonaws.com'', pathname = ''/'',
           search = ''?list-type=2&max-keys=1000&continuation-token=abc'',
           searchParams =
             [(''list-type'', ''2''), (''max-keys'', ''1000''), (''continuation-token'', ''abc'')]\<rparr> @ ''\<newline>x-amz-date:'' @ amzDate_of clock_2013_05_24 @ ''\<newline>'') @
                 ''\<newline>'' @ ''host;x-amz-date'' @ ''\<newline>'' @ hash (body (listing_request listing_url)))),
            (''x-amz-date'', amzDate_of clock_2013_05_24),
            (''x-amz-content-sha256'', hash (body (listing_request listing_url)))]"
    by (rule list_s3_objects_query_in_uri_line [where new_URL = example_URL
          and params = "listing_request listing_url", OF example_URL_listing_request])
       simp_all
  then show ?thesis
    unfolding b amzDate_of_clock
    by (intro exI) (simp add: listing_request_def)
qed

lemma header_ci_three:
  "header_ci [(''Authorization'', a), (''x-amz-date'', d), (''x-amz-content-sha256'', h)] ''host'' = None"
  "header_ci [(''Authorization'', a), (''x-amz-date'', d), (''x-amz-content-sha256'', h)] ''x-amz-date'' = Some d"
  by (simp_all add: header_ci_def toLowerCase_def)

lemma signed_header_names: "split_on CHR '';'' ''host;x-amz-date'' = [''host'', ''x-amz-date'']"
  by simp

text \<open>
  C2. The signers of \<^verbatim>\<open>list-repository-files/aws-signer.ts\<close> and
  \<^verbatim>\<open>list-s3-objects/index.ts\<close> sign the headers \<^verbatim>\<open>host\<close> and \<^verbatim>\<open>x-amz-date\<close>, and whenever
  they succeed they return exactly \<^verbatim>\<open>Authorization\<close>, \<^verbatim>\<open>x-amz-date\<close> and
  \<^verbatim>\<open>x-amz-content-sha256\<close>: the signed \<^verbatim>\<open>x-amz-date\<close> is returned with the value that was
  signed, the signed \<^verbatim>\<open>host\<close> is not returned under any spelling.
\<close>

theorem host_signed_but_not_returned:
  "(signRequest_list_repository_files new_URL now params = Inr hs \<longrightarrow>
      (\<exists>sig. map_of hs ''Authorization'' =
               Some (authorizationHeader_of (accessKeyId params)
                      (credentialScope_of (take 8 (amzDate_of now)) (region params) (service params))
                      ''host;x-amz-date'' sig)) \<and>
      split_on CHR '';'' ''host;x-amz-date'' = [''host'', ''x-amz-date''] \<and>
      map fst hs = [''Authorization'', ''x-amz-date'', ''x-amz-content-sha256''] \<and>
      header_ci hs ''x-amz-date'' = Some (amzDate_of now) \<and>
      header_ci hs ''host'' = None) \<and>
   (signRequest_list_s3_objects new_URL now params = Inr hs' \<longrightarrow>
      (\<exists>sig. map_of hs' ''Authorization'' =
               Some (authorizationHeader_of (accessKeyId params)
                      (credentialScope_of (take 8 (amzDate_of now)) (region params) (service params))
                      ''host;x-amz-date'' sig)) \<and>
      map fst hs' = [''Authorization'', ''x-amz-date'', ''x-amz-content-sha256''] \<and>
      header_ci hs' ''x-amz-date'' = Some (amzDate_of now) \<and>
      header_ci hs' ''host'' = None)"
proof (intro conjI impI)
  assume ok: "signRequest_list_repository_files new_URL now params = Inr hs"
  obtain u where t: "new_URL (url params) = Some u"
    using ok list_repository_files_failure [of new_URL params now]
    by (cases "new_URL (url params)") auto
  note eq = ok [unfolded list_repository_files_success
      [where new_URL = new_URL and params = params, OF t] authorization_under_shape]
  show "\<exists>sig. map_of hs ''Authorization'' =
               Some (authorizationHeader_of (accessKeyId params)
                      (credentialScope_of (take 8 (amzDate_of now)) (region params) (service params))
                      ''host;x-amz-date'' sig)"
    using eq by auto
  show "map fst hs = [''Authorization'', ''x-amz-date'', ''x-amz-content-sha256'']"
    using eq by auto
  show "header_ci hs ''x-amz-date'' = Some (amzDate_of now)"
    using eq header_ci_three(2) by auto
  show "header_ci hs ''host'' = None"
    using eq header_ci_three(1) by auto
  show "split_on CHR '';'' ''host;x-amz-date'' = [''host'', ''x-amz-date'']"
    by (rule signed_header_names)
next
  assume ok: "signRequest_list_s3_objects new_URL now params = Inr hs'"
  obtain u where t: "new_URL (url params) = Some u"
    using ok list_s3_objects_failure [of new_URL params now]
    by (cases "new_URL (url params)") auto
  note eq = ok [unfolded list_s3_objects_success
      [where new_URL = new_URL and params = params, OF t] authorization_under_shape]
  show "\<exists>sig. map_of hs' ''Authorization'' =
               Some (authorizationHeader_of (accessKeyId params)
                      (credentialScope_of (take 8 (amzDate_of now)) (region params) (service params))
                      ''host;x-amz-date'' sig)"
    using eq by auto
  show "map fst hs' = [''Authorization'', ''x-amz-date'', ''x-amz-content-sha256'']"
    using eq by auto
  show "header_ci hs' ''x-amz-date'' = Some (amzDate_of now)"
    using eq header_ci_three(2) by auto
  show "header_ci hs' ''host'' = None"
    using eq header_ci_three(1) by auto
qed

theorem host_signed_but_not_returned_witness:
  "(\<exists>hs. signRequest_list_repository_files example_URL clock_2013_05_24
            (listing_request listing_url) = Inr hs \<and>
         map fst hs = [''Authorization'', ''x-amz-date'', ''x-amz-content-sha256''] \<and>
         header_ci hs ''host'' = None) \<and>
   (\<exists>hs. signRequest_list_s3_objects example_URL clock_2013_05_24
            (listing_request listing_url) = Inr hs \<and>
         map fst hs = [''Authorization'', ''x-amz-date'', ''x-amz-content-sha256''] \<and>
         header_ci hs ''host'' = None)"
proof -
  obtain hs where a: "signRequest_list_repository_files example_URL clock_2013_05_24
      (listing_request listing_url) = Inr hs"
    using list_repository_files_success [where new_URL = example_URL
        and params = "listing_request listing_url", OF example_URL_listing_request]
    by blast
  obtain hs' where b: "signRequest_list_s3_objects example_URL clock_2013_05_24
      (listing_request listing_url) = Inr hs'"
    using list_s3_objects_success [where new_URL = example_URL
        and params = "listing_request listing_url", OF example_URL_listing_request]
    by blast
  note th = host_signed_but_not_returned [of example_URL clock_2013_05_24
      "listing_request listing_url" hs hs']
  from th a have c: "map fst hs = [''Authorization'', ''x-amz-date'', ''x-amz-content-sha256''] \<and>
      header_ci hs ''host'' = None"
    by simp
  from th b have d: "map fst hs' = [''Authorization'', ''x-amz-date'', ''x-amz-content-sha256''] \<and>
      header_ci hs' ''host'' = None"
    by simp
  from a c have e: "\<exists>hs. signRequest_list_repository_files example_URL clock_2013_05_24
            (listing_request listing_url) = Inr hs \<and>
         map fst hs = [''Authorization'', ''x-amz-date'', ''x-amz-content-sha256''] \<and>
         header_ci hs ''host'' = None"
    by (intro exI [of _ hs]) simp
  from b d have f: "\<exists>hs. signRequest_list_s3_objects example_URL clock_2013_05_24
            (listing_request listing_url) = Inr hs \<and>
         map fst hs = [''Authorization'', ''x-amz-date'', ''x-amz-content-sha256''] \<and>
         header_ci hs ''host'' = None"
    by (intro exI [of _ hs']) simp
  from e f show ?thesis by (rule conjI)
qed


text \<open>
  C5 fails as stated: with an empty access key id and an empty secret access key, and a
  host and path that are present, \<^verbatim>\<open>signRequest\<close> of \<^verbatim>\<open>bedrock-llm/aws-signer.ts\<close> returns
  headers.
\<close>

theorem empty_credentials_are_signed:
  "accessKeyId (scenario_request\<lparr>accessKeyId := [], secretAccessKey := []\<rparr>) = [] \<and>
   secretAccessKey (scenario_request\<lparr>accessKeyId := [], secretAccessKey := []\<rparr>) = [] \<and>
   (\<exists>hs. signRequest_bedrock_llm example_URL clock_2013_05_24
            (scenario_request\<lparr>accessKeyId := [], secretAccessKey := []\<rparr>) = Inr hs)"
proof -
  have "final_target example_URL (scenario_request\<lparr>accessKeyId := [], secretAccessKey := []\<rparr>) =
      Inr (''examplebucket.s3.amazonaws.com'', ''/test.txt'')"
    by (simp add: final_target_def scenario_request_def truthy_def)
  from bedrock_llm_success [where new_URL = example_URL, OF this]
  show ?thesis by simp
qed

text \<open>
  C5, amended. \<^verbatim>\<open>signRequest\<close> of \<^verbatim>\<open>bedrock-llm/aws-signer.ts\<close> signals an error exactly
  when its target cannot be resolved: a non-empty url is given and does not parse, or no
  url is given and the host or the path is missing or empty. The error is then determined
  by the target alone (a \<^verbatim>\<open>TypeError\<close> of the URL parser in the first case, the signer's own
  \<^verbatim>\<open>Error\<close> in the second), whatever the clock, body and credentials are; on every other
  input headers are returned. Empty credentials are not checked by the signer.
\<close>

theorem error_exactly_on_unresolved_target:
  "((\<exists>e. signRequest_bedrock_llm new_URL now params = Inl e) = target_unparsable new_URL params) \<and>
   ((\<exists>hs. signRequest_bedrock_llm new_URL now params = Inr hs) = (\<not> target_unparsable new_URL params)) \<and>
   (target_unparsable new_URL params \<longrightarrow>
      signRequest_bedrock_llm new_URL now params =
        (if truthy (url_opt params) = None then Inl Error_url_or_host_and_path
         else Inl TypeError_Invalid_URL))"
proof -
  have a: "(\<exists>e. signRequest_bedrock_llm new_URL now params = Inl e) = target_unparsable new_URL params"
  proof (cases "final_target new_URL params")
    case (Inl e)
    with bedrock_llm_failure [OF Inl, of now] final_target_unparsable [of new_URL params]
    show ?thesis by auto
  next
    case (Inr hp)
    obtain h p where hp: "hp = (h, p)" by (cases hp)
    from Inr hp bedrock_llm_success [where new_URL = new_URL and params = params and now = now
        and finalHost = h and finalPath = p]
      final_target_unparsable [of new_URL params]
    show ?thesis by auto
  qed
  have b: "(\<exists>hs. signRequest_bedrock_llm new_URL now params = Inr hs) = (\<not> target_unparsable new_URL params)"
    using a by (cases "signRequest_bedrock_llm new_URL now params") auto
  have c: "target_unparsable new_URL params \<longrightarrow>
      signRequest_bedrock_llm new_URL now params =
        (if truthy (url_opt params) = None then Inl Error_url_or_host_and_path
         else Inl TypeError_Invalid_URL)"
    by (auto simp: target_unparsable_def signRequest_bedrock_llm_def final_target_def
          split: option.splits)
  from a b c show ?thesis by blast
qed

theorem error_exactly_on_unresolved_target_witness:
  "signRequest_bedrock_llm example_URL clock_2013_05_24
     (scenario_request\<lparr>url_opt := Some ''not a url''\<rparr>) = Inl TypeError_Invalid_URL \<and>
   signRequest_bedrock_llm example_URL clock_2013_05_24
     (scenario_request\<lparr>path := None\<rparr>) = Inl Error_url_or_host_and_path \<and>
   (\<exists>hs. signRequest_bedrock_llm example_URL clock_2013_05_24 scenario_request = Inr hs)"
proof -
  have u1: "target_unparsable example_URL (scenario_request\<lparr>url_opt := Some ''not a url''\<rparr>)"
    by (simp add: target_unparsable_def scenario_request_def truthy_def example_URL_def
          listing_url_def listing_url_sorted_def)
  have u2: "target_unparsable example_URL (scenario_request\<lparr>path := None\<rparr>)"
    by (simp add: target_unparsable_def scenario_request_def truthy_def)
  have u3: "\<not> target_unparsable example_URL scenario_request"
    by (simp add: target_unparsable_def scenario_request_def truthy_def)
  have t1: "truthy (url_opt (scenario_request\<lparr>url_opt := Some ''not a url''\<rparr>)) \<noteq> None"
    by (simp add: truthy_def)
  have t2: "truthy (url_opt (scenario_request\<lparr>path := None\<rparr>)) = None"
    by (simp add: truthy_def scenario_request_def)
  from error_exactly_on_unresolved_target [of example_URL clock_2013_05_24
      "scenario_request\<lparr>url_opt := Some ''not a url''\<rparr>"] u1 t1
  have a: "signRequest_bedrock_llm example_URL clock_2013_05_24
     (scenario_request\<lparr>url_opt := Some ''not a url''\<rparr>) = Inl TypeError_Invalid_URL"
    by simp
  from error_exactly_on_unresolved_target [of example_URL clock_2013_05_24
      "scenario_request\<lparr>path := None\<rparr>"] u2 t2
  have b: "signRequest_bedrock_llm example_URL clock_2013_05_24
     (scenario_request\<lparr>path := None\<rparr>) = Inl Error_url_or_host_and_path"
    by simp
  from error_exactly_on_unresolved_target [of example_URL clock_2013_05_24 scenario_request] u3
  have c: "\<exists>hs. signRequest_bedrock_llm example_URL clock_2013_05_24 scenario_request = Inr hs"
    by simp
  from a b c show ?thesis by blast
qed





lemma mset_insert_by: "mset (insert_by cmp x ys) = add_mset x (mset ys)"
  by (induction ys) simp_all

lemma set_insert_by: "set (insert_by cmp x ys) = insert x (set ys)"
  by (induction ys) auto

lemma mset_sort_by: "mset (sort_by cmp xs) = mset xs"
  by (induction xs) (simp_all add: sort_by_def mset_insert_by)

lemma sorted_insert_by:
  assumes "linear_compare cmp" and "sorted_wrt (\<lambda>a b. cmp a b \<le> 0) ys"
  shows "sorted_wrt (\<lambda>a b. cmp a b \<le> 0) (insert_by cmp x ys)"
  using assms(2)
proof (induction ys)
  case Nil
  show ?case by simp
next
  case (Cons y ys)
  have total: "cmp x y \<le> 0 \<or> cmp y x \<le> 0"
    using assms(1) unfolding linear_compare_def by blast
  have trans: "\<And>c. cmp x y \<le> 0 \<Longrightarrow> cmp y c \<le> 0 \<Longrightarrow> cmp x c \<le> 0"
    using assms(1) unfolding linear_compare_def by blast
  from Cons.prems have tail: "sorted_wrt (\<lambda>a b. cmp a b \<le> 0) ys"
    and head: "\<forall>z\<in>set ys. cmp y z \<le> 0"
    by simp_all
  show ?case
  proof (cases "cmp x y \<le> 0")
    case True
    have "\<forall>z\<in>set ys. cmp x z \<le> 0"
      using trans [OF True] head by blast
    with True Cons.prems show ?thesis by simp
  next
    case False
    with total have yx: "cmp y x \<le> 0" by simp
    have "sorted_wrt (\<lambda>a b. cmp a b \<le> 0) (insert_by cmp x ys)"
      by (rule Cons.IH [OF tail])
    moreover have "\<forall>z\<in>set (insert_by cmp x ys). cmp y z \<le> 0"
      using yx head by (simp add: set_insert_by)
    ultimately show ?thesis using False by simp
  qed
qed

lemma sorted_sort_by:
  "linear_compare cmp \<Longrightarrow> sorted_wrt (\<lambda>a b. cmp a b \<le> 0) (sort_by cmp xs)"
proof (induction xs)
  case Nil
  show ?case by (simp add: sort_by_def)
next
  case (Cons x xs)
  then have "sorted_wrt (\<lambda>a b. cmp a b \<le> 0) (foldr (insert_by cmp) xs [])"
    by (simp add: sort_by_def)
  from sorted_insert_by [OF Cons.prems this] show ?case
    by (simp add: sort_by_def)
qed

lemma sorted_wrt_unique:
  assumes "linear_compare cmp"
  shows "sorted_wrt (\<lambda>a b. cmp a b \<le> 0) xs \<Longrightarrow> sorted_wrt (\<lambda>a b. cmp a b \<le> 0) ys \<Longrightarrow>
         mset xs = mset ys \<Longrightarrow> xs = ys"
proof (induction xs arbitrary: ys)
  case Nil
  then show ?case by simp
next
  case (Cons x xs)
  have antisym: "\<And>a b. cmp a b \<le> 0 \<Longrightarrow> cmp b a \<le> 0 \<Longrightarrow> a = b"
    using assms unfolding linear_compare_def by blast
  from Cons.prems(3) obtain y ys' where ys: "ys = y # ys'"
    by (cases ys) auto
  have sets: "set (x # xs) = set (y # ys')"
    using Cons.prems(3) ys mset_eq_setD by blast
  have "x = y"
  proof (rule ccontr)
    assume ne: "x \<noteq> y"
    from sets have "x \<in> set (y # ys')" by auto
    with ne have "x \<in> set ys'" by simp
    with Cons.prems(2) ys have 1: "cmp y x \<le> 0" by simp
    from sets have "y \<in> set (x # xs)" by auto
    with ne have "y \<in> set xs" by simp
    with Cons.prems(1) have 2: "cmp x y \<le> 0" by simp
    from antisym [OF 2 1] ne show False by simp
  qed
  have "xs = ys'"
  proof (rule Cons.IH)
    show "sorted_wrt (\<lambda>a b. cmp a b \<le> 0) xs" using Cons.prems(1) by simp
    show "sorted_wrt (\<lambda>a b. cmp a b \<le> 0) ys'" using Cons.prems(2) ys by simp
    show "mset xs = mset ys'" using Cons.prems(3) ys \<open>x = y\<close> by simp
  qed
  with \<open>x = y\<close> ys show ?case by simp
qed

lemma sort_by_permutation:
  assumes "linear_compare cmp" and "mset xs = mset ys"
  shows "sort_by cmp xs = sort_by cmp ys"
proof (rule sorted_wrt_unique [OF assms(1)])
  show "sorted_wrt (\<lambda>a b. cmp a b \<le> 0) (sort_by cmp xs)"
    by (rule sorted_sort_by [OF assms(1)])
  show "sorted_wrt (\<lambda>a b. cmp a b \<le> 0) (sort_by cmp ys)"
    by (rule sorted_sort_by [OF assms(1)])
  show "mset (sort_by cmp xs) = mset (sort_by cmp ys)"
    by (simp add: mset_sort_by assms(2))
qed


lemma linear_compare_params:
  assumes "linear_compare localeCompare"
  shows "linear_compare (compare_params localeCompare)"
proof -
  have total: "\<And>a b. localeCompare a b \<le> 0 \<or> localeCompare b a \<le> 0"
    using assms unfolding linear_compare_def by blast
  have trans: "\<And>a b c. localeCompare a b \<le> 0 \<Longrightarrow> localeCompare b c \<le> 0 \<Longrightarrow> localeCompare a c \<le> 0"
    using assms unfolding linear_compare_def by blast
  have antisym: "\<And>a b. localeCompare a b \<le> 0 \<Longrightarrow> localeCompare b a \<le> 0 \<Longrightarrow> a = b"
    using assms unfolding linear_compare_def by blast
  have t: "\<And>a b. compare_params localeCompare a b \<le> 0 \<or> compare_params localeCompare b a \<le> 0"
    using total by (simp add: compare_params_def)
  have a: "\<And>a b. compare_params localeCompare a b \<le> 0 \<Longrightarrow>
              compare_params localeCompare b a \<le> 0 \<Longrightarrow> a = b"
    using antisym by (auto simp: compare_params_def prod_eq_iff split: if_splits)
  have r: "\<And>a b c. compare_params localeCompare a b \<le> 0 \<Longrightarrow>
              compare_params localeCompare b c \<le> 0 \<Longrightarrow> compare_params localeCompare a c \<le> 0"
  proof -
    fix a b c :: "string \<times> string"
    assume ab: "compare_params localeCompare a b \<le> 0"
      and bc: "compare_params localeCompare b c \<le> 0"
    show "compare_params localeCompare a c \<le> 0"
    proof (cases "fst a = fst b")
      case True
      with ab bc trans [of "snd a" "snd b" "snd c"] show ?thesis
        by (auto simp: compare_params_def split: if_splits)
    next
      case ne: False
      show ?thesis
      proof (cases "fst b = fst c")
        case True
        with ab bc ne show ?thesis
          by (auto simp: compare_params_def split: if_splits)
      next
        case False
        with ab bc ne have 1: "localeCompare (fst a) (fst b) \<le> 0"
          and 2: "localeCompare (fst b) (fst c) \<le> 0"
          by (auto simp: compare_params_def)
        show ?thesis
        proof (cases "fst a = fst c")
          case True
          with 1 2 antisym [of "fst a" "fst b"] ne show ?thesis by simp
        next
          case False
          with trans [OF 1 2] show ?thesis by (simp add: compare_params_def)
        qed
      qed
    qed
  qed
  show ?thesis
    unfolding linear_compare_def using t a r by blast
qed

lemma getCanonicalQueryString_permutation:
  assumes "linear_compare localeCompare" and "mset sp = mset sp'"
  shows "getCanonicalQueryString localeCompare sp = getCanonicalQueryString localeCompare sp'"
proof -
  have "mset (map (\<lambda>(key, val). (encodeURIComponent2 key, encodeURIComponent2 val)) sp) =
        mset (map (\<lambda>(key, val). (encodeURIComponent2 key, encodeURIComponent2 val)) sp')"
    using assms(2) by (metis mset_map)
  from sort_by_permutation [OF linear_compare_params [OF assms(1)] this]
  show ?thesis
    by (simp add: getCanonicalQueryString_def)
qed

lemma getCanonicalQueryString_empty: "getCanonicalQueryString localeCompare [] = []"
  by (simp add: getCanonicalQueryString_def sort_by_def)

text \<open>
  The sibling signer \<^verbatim>\<open>generate-upload-url/aws-signer.ts\<close> does sort: two requests whose
  parsed URLs differ only in the order of their query parameters get the same headers,
  for every collation that is a linear order.
\<close>

lemma generate_upload_url_order_invariant:
  assumes "linear_compare localeCompare"
    and "new_URL (url params) = Some urlObj" and "new_URL (url params') = Some urlObj'"
    and "hostname urlObj = hostname urlObj'" and "pathname urlObj = pathname urlObj'"
    and "mset (searchParams urlObj) = mset (searchParams urlObj')"
    and "method params = method params'" and "body params = body params'"
    and "region params = region params'" and "service params = service params'"
    and "accessKeyId params = accessKeyId params'"
    and "secretAccessKey params = secretAccessKey params'"
  shows "signRequest_generate_upload_url localeCompare new_URL now params =
         signRequest_generate_upload_url localeCompare new_URL now params'"
proof -
  note q = getCanonicalQueryString_permutation [OF assms(1,6)]
  have c: "\<And>d h. canonicalRequest_generate_upload_url localeCompare (method params) urlObj d h =
      canonicalRequest_generate_upload_url localeCompare (method params') urlObj' d h"
    unfolding canonicalRequest_generate_upload_url_def
    by (simp only: assms(4,5,7) q)
  show ?thesis
    unfolding signRequest_generate_upload_url_def
    by (simp only: assms(2,3) option.case c assms(4) assms(8-12))
qed

lemma bytewise_refl: "bytewise a a = 0"
  by (induction a) simp_all

lemma bytewise_antisym: "bytewise a b \<le> 0 \<Longrightarrow> bytewise b a \<le> 0 \<Longrightarrow> a = b"
  by (induction a b rule: bytewise.induct) (auto split: if_splits)

lemma bytewise_total: "bytewise a b \<le> 0 \<or> bytewise b a \<le> 0"
  by (induction a b rule: bytewise.induct) auto

lemma bytewise_trans: "bytewise a b \<le> 0 \<Longrightarrow> bytewise b c \<le> 0 \<Longrightarrow> bytewise a c \<le> 0"
proof (induction a b arbitrary: c rule: bytewise.induct)
  case 1
  then show ?case by simp
next
  case (2 y ys)
  then show ?case by (cases c) simp_all
next
  case (3 x xs)
  then show ?case by simp
next
  case (4 x xs y ys)
  then show ?case
    by (cases c) (auto split: if_splits)
qed

lemma linear_compare_bytewise: "linear_compare bytewise"
  unfolding linear_compare_def
  using bytewise_total bytewise_trans bytewise_antisym by blast

lemma generate_upload_url_listing_orders_agree:
  "signRequest_generate_upload_url bytewise example_URL clock_2013_05_24 (listing_request listing_url) =
   signRequest_generate_upload_url bytewise example_URL clock_2013_05_24
     (listing_request listing_url_sorted)"
  by (rule generate_upload_url_order_invariant [OF linear_compare_bytewise
        example_URL_listing_request example_URL_listing_sorted])
     (simp_all add: listing_request_def)

lemma example_kDate:
  "HMAC_SHA256
     (encode ''AWS4wJalrXUtnFEMI/K7MDENG/bPxRfiCYEXAMPLEKEY'')
     (encode ''20130524'') =
   [
     0x68, 0x89, 0x64, 0x19, 0x20, 0x6D, 0x62, 0x40, 0xAD, 0x4C, 0xD7, 0xDC, 0x8B, 0xA6, 0x58, 0xEF,
     0xBF, 0x3B, 0x43, 0xB5, 0x30, 0x41, 0x95, 0x00, 0x83, 0xA1, 0x08, 0x33, 0x82, 0x4F, 0xCF, 0xBB]"
  by code_simp

lemma example_kRegion:
  "HMAC_SHA256
     ([
        0x68, 0x89, 0x64, 0x19, 0x20, 0x6D, 0x62, 0x40, 0xAD, 0x4C, 0xD7, 0xDC, 0x8B, 0xA6, 0x58, 0xEF,
        0xBF, 0x3B, 0x43, 0xB5, 0x30, 0x41, 0x95, 0x00, 0x83, 0xA1, 0x08, 0x33, 0x82, 0x4F, 0xCF, 0xBB])
     (encode ''us-east-1'') =
   [
     0x05, 0x06, 0x33, 0x5C, 0xC3, 0x6B, 0x4A, 0x97, 0x1F, 0x6B, 0xED, 0xDF, 0x0A, 0xDB, 0xD9, 0x76,
     0xEE, 0x71, 0x22, 0x2C, 0xB4, 0x2C, 0x13, 0x14, 0x87, 0xE0, 0xC1, 0x2C, 0x5C, 0x47, 0xA0, 0x25]"
  by code_simp

lemma example_kService:
  "HMAC_SHA256
     ([
        0x05, 0x06, 0x33, 0x5C, 0xC3, 0x6B, 0x4A, 0x97, 0x1F, 0x6B, 0xED, 0xDF, 0x0A, 0xDB, 0xD9, 0x76,
        0xEE, 0x71, 0x22, 0x2C, 0xB4, 0x2C, 0x13, 0x14, 0x87, 0xE0, 0xC1, 0x2C, 0x5C, 0x47, 0xA0, 0x25])
     (encode ''s3'') =
   [
     0x05, 0x60, 0x2C, 0x14, 0xE8, 0xB6, 0xAA, 0xD3, 0x0E, 0x7F, 0x6D, 0xEC, 0x4B, 0x54, 0x40, 0x71,
     0xF6, 0xE4, 0xA7, 0x42, 0x93, 0x4B, 0xC5, 0xE3, 0x64, 0x15, 0x73, 0x3C, 0x47, 0xA6, 0x7D, 0x44]"
  by code_simp

lemma example_kSigning:
  "HMAC_SHA256
     ([
        0x05, 0x60, 0x2C, 0x14, 0xE8, 0xB6, 0xAA, 0xD3, 0x0E, 0x7F, 0x6D, 0xEC, 0x4B, 0x54, 0x40, 0x71,
        0xF6, 0xE4, 0xA7, 0x42, 0x93, 0x4B, 0xC5, 0xE3, 0x64, 0x15, 0x73, 0x3C, 0x47, 0xA6, 0x7D, 0x44])
     (encode ''aws4_request'') =
   [
     0xDB, 0xB8, 0x93, 0xAC, 0xC0, 0x10, 0x96, 0x49, 0x18, 0xF1, 0xFD, 0x43, 0x3A, 0xDD, 0x87, 0xC7,
     0x0E, 0x8B, 0x0D, 0xB6, 0xBE, 0x30, 0xC1, 0xFB, 0xEA, 0xFE, 0xFA, 0x5E, 0xC6, 0xBA, 0x83, 0x78]"
  by code_simp

lemma example_signing_key:
  "spec_signing_key ''wJalrXUtnFEMI/K7MDENG/bPxRfiCYEXAMPLEKEY'' ''20130524'' ''us-east-1'' ''s3'' =
   [
     0xDB, 0xB8, 0x93, 0xAC, 0xC0, 0x10, 0x96, 0x49, 0x18, 0xF1, 0xFD, 0x43, 0x3A, 0xDD, 0x87, 0xC7,
     0x0E, 0x8B, 0x0D, 0xB6, 0xBE, 0x30, 0xC1, 0xFB, 0xEA, 0xFE, 0xFA, 0x5E, 0xC6, 0xBA, 0x83, 0x78]"
proof -
  have e: "''AWS4'' @ ''wJalrXUtnFEMI/K7MDENG/bPxRfiCYEXAMPLEKEY'' = ''AWS4wJalrXUtnFEMI/K7MDENG/bPxRfiCYEXAMPLEKEY''"
    by simp
  show ?thesis
    unfolding spec_signing_key_def Let_def
    by (simp only: e example_kDate example_kRegion example_kService example_kSigning)
qed

lemma listing_canonical_request:
  "canonicalRequest_list_repository_files ''GET''
     \<lparr>hostname = ''examplebucket.s3.amazonaws.com'', pathname = ''/'',
        search = ''?list-type=2&max-keys=1000&continuation-token=abc'',
        searchParams = [(''list-type'', ''2''), (''max-keys'', ''1000''), (''continuation-token'', ''abc'')]\<rparr>
     ''20130524T000000Z'' ''e3b0c44298fc1c149afbf4c8996fb92427ae41e4649b934ca495991b7852b855'' =
   ''GET\<newline>/\<newline>list-type=2&max-keys=1000&continuation-token=abc\<newline>host:examplebucket.s3.amazonaws.com\<newline>x-amz-date:20130524T000000Z\<newline>\<newline>host;x-amz-date\<newline>e3b0c44298fc1c149afbf4c8996fb92427ae41e4649b934ca495991b7852b855''"
  by code_simp

lemma listing_canonical_request_hash:
  "hash ''GET\<newline>/\<newline>list-type=2&max-keys=1000&continuation-token=abc\<newline>host:examplebucket.s3.amazonaws.com\<newline>x-amz-date:20130524T000000Z\<newline>\<newline>host;x-amz-date\<newline>e3b0c44298fc1c149afbf4c8996fb92427ae41e4649b934ca495991b7852b855'' =
   ''43845e035124ab7689f4e1c73925f07532a1fde70a5b3c7e078a62848138b34c''"
  by code_simp

lemma listing_string_to_sign:
  "stringToSign_of ''20130524T000000Z'' ''20130524/us-east-1/s3/aws4_request''
     ''43845e035124ab7689f4e1c73925f07532a1fde70a5b3c7e078a62848138b34c'' =
   ''AWS4-HMAC-SHA256\<newline>20130524T000000Z\<newline>20130524/us-east-1/s3/aws4_request\<newline>43845e035124ab7689f4e1c73925f07532a1fde70a5b3c7e078a62848138b34c''"
  by code_simp

lemma listing_signature:
  "spec_signature
     [
       0xDB, 0xB8, 0x93, 0xAC, 0xC0, 0x10, 0x96, 0x49, 0x18, 0xF1, 0xFD, 0x43, 0x3A, 0xDD, 0x87, 0xC7,
       0x0E, 0x8B, 0x0D, 0xB6, 0xBE, 0x30, 0xC1, 0xFB, 0xEA, 0xFE, 0xFA, 0x5E, 0xC6, 0xBA, 0x83, 0x78]
     ''AWS4-HMAC-SHA256\<newline>20130524T000000Z\<newline>20130524/us-east-1/s3/aws4_request\<newline>43845e035124ab7689f4e1c73925f07532a1fde70a5b3c7e078a62848138b34c'' =
   ''7f9ef7be8ad716e2f63ad2cbe583b58f2e78d500264ee118b81e1c2613668316''"
  by code_simp

lemma listing_sorted_canonical_request:
  "canonicalRequest_list_repository_files ''GET''
     \<lparr>hostname = ''examplebucket.s3.amazonaws.com'', pathname = ''/'',
        search = ''?continuation-token=abc&list-type=2&max-keys=1000'',
        searchParams = [(''continuation-token'', ''abc''), (''list-type'', ''2''), (''max-keys'', ''1000'')]\<rparr>
     ''20130524T000000Z'' ''e3b0c44298fc1c149afbf4c8996fb92427ae41e4649b934ca495991b7852b855'' =
   ''GET\<newline>/\<newline>continuation-token=abc&list-type=2&max-keys=1000\<newline>host:examplebucket.s3.amazonaws.com\<newline>x-amz-date:20130524T000000Z\<newline>\<newline>host;x-amz-date\<newline>e3b0c44298fc1c149afbf4c8996fb92427ae41e4649b934ca495991b7852b855''"
  by code_simp

lemma listing_sorted_canonical_request_hash:
  "hash ''GET\<newline>/\<newline>continuation-token=abc&list-type=2&max-keys=1000\<newline>host:examplebucket.s3.amazonaws.com\<newline>x-amz-date:20130524T000000Z\<newline>\<newline>host;x-amz-date\<newline>e3b0c44298fc1c149afbf4c8996fb92427ae41e4649b934ca495991b7852b855'' =
   ''f8d1ed6d7ee7220f4dcb1243d9dac2bdf6e1a753315ad3f3e61d601f49eb6376''"
  by code_simp

lemma listing_sorted_string_to_sign:
  "stringToSign_of ''20130524T000000Z'' ''20130524/us-east-1/s3/aws4_request''
     ''f8d1ed6d7ee7220f4dcb1243d9dac2bdf6e1a753315ad3f3e61d601f49eb6376'' =
   ''AWS4-HMAC-SHA256\<newline>20130524T000000Z\<newline>20130524/us-east-1/s3/aws4_request\<newline>f8d1ed6d7ee7220f4dcb1243d9dac2bdf6e1a753315ad3f3e61d601f49eb6376''"
  by code_simp

lemma listing_sorted_signature:
  "spec_signature
     [
       0xDB, 0xB8, 0x93, 0xAC, 0xC0, 0x10, 0x96, 0x49, 0x18, 0xF1, 0xFD, 0x43, 0x3A, 0xDD, 0x87, 0xC7,
       0x0E, 0x8B, 0x0D, 0xB6, 0xBE, 0x30, 0xC1, 0xFB, 0xEA, 0xFE, 0xFA, 0x5E, 0xC6, 0xBA, 0x83, 0x78]
     ''AWS4-HMAC-SHA256\<newline>20130524T000000Z\<newline>20130524/us-east-1/s3/aws4_request\<newline>f8d1ed6d7ee7220f4dcb1243d9dac2bdf6e1a753315ad3f3e61d601f49eb6376'' =
   ''ed42077c5437984d6f7c3e311190f5862925db384e1e5299c85afe070fb77f43''"
  by code_simp

lemma listing_request_fields:
  "accessKeyId (listing_request u) = ''AKIDEXAMPLE''"
  "secretAccessKey (listing_request u) = ''wJalrXUtnFEMI/K7MDENG/bPxRfiCYEXAMPLEKEY''"
  "region (listing_request u) = ''us-east-1''"
  "service (listing_request u) = ''s3''"
  "method (listing_request u) = ''GET''"
  "body (listing_request u) = []"
  "url (listing_request u) = u"
  by (simp_all add: listing_request_def)

lemma example_scope:
  "take 8 ''20130524T000000Z'' = ''20130524''"
  "credentialScope_of ''20130524'' ''us-east-1'' ''s3'' = ''20130524/us-east-1/s3/aws4_request''"
  by (simp_all add: credentialScope_of_def)

lemma example_authorization:
  "authorizationHeader_of ''AKIDEXAMPLE'' ''20130524/us-east-1/s3/aws4_request''
     ''host;x-amz-date'' ''7f9ef7be8ad716e2f63ad2cbe583b58f2e78d500264ee118b81e1c2613668316'' =
   ''AWS4-HMAC-SHA256 Credential=AKIDEXAMPLE/20130524/us-east-1/s3/aws4_request, SignedHeaders=host;x-amz-date, Signature=7f9ef7be8ad716e2f63ad2cbe583b58f2e78d500264ee118b81e1c2613668316''"
  "authorizationHeader_of ''AKIDEXAMPLE'' ''20130524/us-east-1/s3/aws4_request''
     ''host;x-amz-date'' ''ed42077c5437984d6f7c3e311190f5862925db384e1e5299c85afe070fb77f43'' =
   ''AWS4-HMAC-SHA256 Credential=AKIDEXAMPLE/20130524/us-east-1/s3/aws4_request, SignedHeaders=host;x-amz-date, Signature=ed42077c5437984d6f7c3e311190f5862925db384e1e5299c85afe070fb77f43''"
  by (simp_all add: authorizationHeader_of_def)

lemma listing_result:
  "signRequest_list_repository_files example_URL clock_2013_05_24 (listing_request listing_url) =
     Inr [(''Authorization'',
             ''AWS4-HMAC-SHA256 Credential=AKIDEXAMPLE/20130524/us-east-1/s3/aws4_request, SignedHeaders=host;x-amz-date, Signature=7f9ef7be8ad716e2f63ad2cbe583b58f2e78d500264ee118b81e1c2613668316''),
          (''x-amz-date'', ''20130524T000000Z''),
          (''x-amz-content-sha256'',
             ''e3b0c44298fc1c149afbf4c8996fb92427ae41e4649b934ca495991b7852b855'')]"
  by (simp only: list_repository_files_success [where new_URL = example_URL
          and params = "listing_request listing_url", OF example_URL_listing_request]
        authorization_under_shape listing_request_fields amzDate_of_clock example_scope
        hash_empty listing_canonical_request listing_canonical_request_hash
        listing_string_to_sign example_signing_key listing_signature example_authorization)

lemma listing_sorted_result:
  "signRequest_list_repository_files example_URL clock_2013_05_24
     (listing_request listing_url_sorted) =
     Inr [(''Authorization'',
             ''AWS4-HMAC-SHA256 Credential=AKIDEXAMPLE/20130524/us-east-1/s3/aws4_request, SignedHeaders=host;x-amz-date, Signature=ed42077c5437984d6f7c3e311190f5862925db384e1e5299c85afe070fb77f43''),
          (''x-amz-date'', ''20130524T000000Z''),
          (''x-amz-content-sha256'',
             ''e3b0c44298fc1c149afbf4c8996fb92427ae41e4649b934ca495991b7852b855'')]"
  by (simp only: list_repository_files_success [where new_URL = example_URL
          and params = "listing_request listing_url_sorted", OF example_URL_listing_sorted]
        authorization_under_shape listing_request_fields amzDate_of_clock example_scope
        hash_empty listing_sorted_canonical_request listing_sorted_canonical_request_hash
        listing_sorted_string_to_sign example_signing_key listing_sorted_signature
        example_authorization)

text \<open>
  C4. \<^verbatim>\<open>signRequest\<close> of \<^verbatim>\<open>list-repository-files/aws-signer.ts\<close> takes its canonical query
  string from \<^verbatim>\<open>urlObj.searchParams.toString()\<close>, which keeps the order of the URL. The
  bucket listing with the query parameters in the order \<^verbatim>\<open>list-repository-files/index.ts\<close>
  sets them, and the same listing with the same parameters in sorted order, signed at
  the same instant with the same credentials, get two different signatures.
\<close>

theorem query_order_changes_signature:
  "mset (searchParams (the (example_URL listing_url))) =
     mset (searchParams (the (example_URL listing_url_sorted))) \<and>
   hostname (the (example_URL listing_url)) = hostname (the (example_URL listing_url_sorted)) \<and>
   pathname (the (example_URL listing_url)) = pathname (the (example_URL listing_url_sorted)) \<and>
   signRequest_list_repository_files example_URL clock_2013_05_24 (listing_request listing_url) =
     Inr [(''Authorization'',
             ''AWS4-HMAC-SHA256 Credential=AKIDEXAMPLE/20130524/us-east-1/s3/aws4_request, SignedHeaders=host;x-amz-date, Signature=7f9ef7be8ad716e2f63ad2cbe583b58f2e78d500264ee118b81e1c2613668316''),
          (''x-amz-date'', ''20130524T000000Z''),
          (''x-amz-content-sha256'',
             ''e3b0c44298fc1c149afbf4c8996fb92427ae41e4649b934ca495991b7852b855'')] \<and>
   signRequest_list_repository_files example_URL clock_2013_05_24
     (listing_request listing_url_sorted) =
     Inr [(''Authorization'',
             ''AWS4-HMAC-SHA256 Credential=AKIDEXAMPLE/20130524/us-east-1/s3/aws4_request, SignedHeaders=host;x-amz-date, Signature=ed42077c5437984d6f7c3e311190f5862925db384e1e5299c85afe070fb77f43''),
          (''x-amz-date'', ''20130524T000000Z''),
          (''x-amz-content-sha256'',
             ''e3b0c44298fc1c149afbf4c8996fb92427ae41e4649b934ca495991b7852b855'')] \<and>
   signRequest_list_repository_files example_URL clock_2013_05_24 (listing_request listing_url) \<noteq>
   signRequest_list_repository_files example_URL clock_2013_05_24
     (listing_request listing_url_sorted)"
proof -
  have a: "mset (searchParams (the (example_URL listing_url))) =
     mset (searchParams (the (example_URL listing_url_sorted)))"
    by (simp add: example_URL_def listing_url_def listing_url_sorted_def)
  have b: "hostname (the (example_URL listing_url)) = hostname (the (example_URL listing_url_sorted))"
    "pathname (the (example_URL listing_url)) = pathname (the (example_URL listing_url_sorted))"
    by (simp_all add: example_URL_def listing_url_def listing_url_sorted_def)
  have c: "signRequest_list_repository_files example_URL clock_2013_05_24 (listing_request listing_url) \<noteq>
   signRequest_list_repository_files example_URL clock_2013_05_24
     (listing_request listing_url_sorted)"
    unfolding listing_result listing_sorted_result by simp
  from a b c listing_result listing_sorted_result show ?thesis
    by (intro conjI)
qed










end
